theory Spec2Isabelle
  imports Main "HOL-Library.Word"
begin

section \<open>The gRPC service layer of the placement driver (server/grpc_service.go)\<close>

text \<open>
  The theory embeds the request handlers of \<^verbatim>\<open>server/grpc_service.go\<close>. The handlers
  are thin: they validate, consult collaborators that live in other files of the
  package (the raft cluster, the id allocator, the coordinator, the gRPC stream) and
  build response envelopes. The collaborators are therefore parameters of the model
  (a record of functions over an abstract collaborator state \<open>'w\<close>), and every call a
  handler makes to one of them is appended to a call log, so that statements such as
  "the operation is never invoked" or "the guard runs first" can be read off the log.
\<close>

subsection \<open>Protocol data (kvproto: metapb, pdpb)\<close>

type_synonym u64 = "64 word"
type_synonym bytes = "8 word list"

datatype ErrorType =
    ErrorType_OK
  | ErrorType_UNKNOWN
  | ErrorType_NOT_BOOTSTRAPPED
  | ErrorType_STORE_TOMBSTONE
  | ErrorType_ALREADY_BOOTSTRAPPED

datatype StoreState = StoreState_Up | StoreState_Offline | StoreState_Tombstone

record Peer =
  peer_Id :: u64
  peer_StoreId :: u64

record Region =
  region_Id :: u64
  region_StartKey :: "bytes option"
  region_EndKey :: "bytes option"
  region_Peers :: "Peer list"

record Store =
  store_Id :: u64
  store_Address :: string
  store_State :: StoreState

record Cluster =
  cluster_Id :: u64
  cluster_MaxPeerCount :: "32 word"

record StoreStats =
  stats_StoreId :: u64
  stats_Capacity :: u64
  stats_Available :: u64

record PeerStats =
  ps_Peer :: "Peer option"
  ps_DownSeconds :: u64

record Member =
  member_Name :: string
  member_MemberId :: u64

record Timestamp =
  ts_Physical :: "64 word"
  ts_Logical :: "64 word"

text \<open>The generated protobuf getters are nil-safe: on an absent message they return
  the zero value of the field.\<close>

definition Peer_GetStoreId :: "Peer option \<Rightarrow> u64" where
  "Peer_GetStoreId p = (case p of None \<Rightarrow> 0 | Some x \<Rightarrow> peer_StoreId x)"

definition Region_GetId :: "Region option \<Rightarrow> u64" where
  "Region_GetId r = (case r of None \<Rightarrow> 0 | Some x \<Rightarrow> region_Id x)"

definition Region_GetStartKey :: "Region option \<Rightarrow> bytes option" where
  "Region_GetStartKey r = (case r of None \<Rightarrow> None | Some x \<Rightarrow> region_StartKey x)"

definition Store_GetId :: "Store option \<Rightarrow> u64" where
  "Store_GetId st = (case st of None \<Rightarrow> 0 | Some x \<Rightarrow> store_Id x)"

definition Store_GetState :: "Store option \<Rightarrow> StoreState" where
  "Store_GetState st = (case st of None \<Rightarrow> StoreState_Up | Some x \<Rightarrow> store_State x)"

definition StoreStats_GetStoreId :: "StoreStats option \<Rightarrow> u64" where
  "StoreStats_GetStoreId st = (case st of None \<Rightarrow> 0 | Some x \<Rightarrow> stats_StoreId x)"

subsection \<open>Envelopes\<close>

text \<open>Messages are kept as the source writes them: a literal, or a format string
  with its arguments (the rendering done by the fmt package is not modelled).\<close>

record RequestHeader =
  rh_ClusterId :: u64

definition GetClusterId :: "RequestHeader option \<Rightarrow> u64" where
  "GetClusterId h = (case h of None \<Rightarrow> 0 | Some x \<Rightarrow> rh_ClusterId x)"

record Request =
  req_Header :: "RequestHeader option"

definition GetHeader :: "'a Request_scheme \<Rightarrow> RequestHeader option" where
  "GetHeader request = req_Header request"

record TsoRequest = Request +
  tso_Count :: "32 word"

record BootstrapRequest = Request +
  bs_Store :: "Store option"
  bs_Region :: "Region option"

record GetStoreRequest = Request +
  gs_StoreId :: u64

record PutStoreRequest = Request +
  ps_Store :: "Store option"

record StoreHeartbeatRequest = Request +
  sh_Stats :: "StoreStats option"

record RegionHeartbeatRequest = Request +
  rhb_Region :: "Region option"
  rhb_Leader :: "Peer option"
  rhb_DownPeers :: "PeerStats list"
  rhb_PendingPeers :: "Peer list"
  rhb_BytesWritten :: u64

record GetRegionRequest = Request +
  gr_RegionKey :: bytes

record GetRegionByIDRequest = Request +
  grid_RegionId :: u64

record AskSplitRequest = Request +
  as_Region :: "Region option"

record ReportSplitRequest = Request +
  rs_Left :: "Region option"
  rs_Right :: "Region option"

record PutClusterConfigRequest = Request +
  pc_Cluster :: "Cluster option"

datatype fmt_arg =
    ArgUint u64
  | ArgStoreHeartbeatRequest StoreHeartbeatRequest
  | ArgRegionHeartbeatRequest RegionHeartbeatRequest

datatype message = Lit string | Sprintf string "fmt_arg list"

record pdpb_Error =
  err_Type :: ErrorType
  err_Message :: message

record ResponseHeader =
  ClusterId :: u64
  Error :: "pdpb_Error option"

record Response =
  Header :: "ResponseHeader option"

record GetMembersResponse = Response +
  gm_Members :: "Member list"
  gm_Leader :: "Member option"

record TsoResponse = Response +
  tso_Timestamp :: "Timestamp option"
  tso_RespCount :: "32 word"

record IsBootstrappedResponse = Response +
  ib_Bootstrapped :: bool

record AllocIDResponse = Response +
  ai_Id :: u64

record GetStoreResponse = Response +
  gs_Store :: "Store option"

record GetRegionResponse = Response +
  gr_Region :: "Region option"
  gr_Leader :: "Peer option"

record AskSplitResponse = Response +
  as_NewRegionId :: u64
  as_NewPeerIds :: "u64 list"

record GetClusterConfigResponse = Response +
  gc_Cluster :: "Cluster option"

record RegionHeartbeatResponse = Response +
  rhb_ChangePeer :: "Peer option"
  rhb_TransferLeader :: "Peer option"

subsection \<open>Errors\<close>

text \<open>An error produced outside this file (by a collaborator or by the stream) is
  known here only through its \<^verbatim>\<open>Error()\<close> text.\<close>

datatype ext_error = ExtError string

definition Error_text :: "ext_error \<Rightarrow> string" where
  "Error_text e = (case e of ExtError m \<Rightarrow> m)"

datatype codes = codes_Unknown | codes_Unavailable | codes_FailedPrecondition

datatype go_error =
    grpc_Errorf codes string "fmt_arg list"
  | errors_Errorf string "fmt_arg list"
  | errors_New string
  | External ext_error
  | Trace go_error

definition notLeaderError :: go_error where
  "notLeaderError = grpc_Errorf codes_Unavailable ''not leader'' []"

subsection \<open>Region information\<close>

text \<open>Modelled from the spec: the \<^verbatim>\<open>RegionInfo\<close> struct and its constructor
  \<^verbatim>\<open>newRegionInfo\<close> are declared in another file of the package. Per the data model
  of the specification a RegionInfo is built fresh from each heartbeat and holds the
  reported region (whose id it exposes), the leader peer, the down peers, the pending
  peers and the written bytes; the constructor sets region and leader only.\<close>

record RegionInfo =
  ri_Region :: "Region option"
  ri_Leader :: "Peer option"
  ri_DownPeers :: "PeerStats list"
  ri_PendingPeers :: "Peer list"
  ri_WrittenBytes :: u64

definition newRegionInfo :: "Region option \<Rightarrow> Peer option \<Rightarrow> RegionInfo" where
  "newRegionInfo region leader =
     \<lparr>ri_Region = region, ri_Leader = leader, ri_DownPeers = [], ri_PendingPeers = [],
      ri_WrittenBytes = 0\<rparr>"

definition RegionInfo_GetId :: "RegionInfo \<Rightarrow> u64" where
  "RegionInfo_GetId region = Region_GetId (ri_Region region)"

subsection \<open>The server, its collaborators and the call log\<close>

datatype event =
    Ev_validateRequest
  | Ev_isClosed
  | Ev_GetMembers
  | Ev_GetLeader
  | Ev_getRespTS "32 word"
  | Ev_GetRaftCluster
  | Ev_bootstrapCluster
  | Ev_Alloc
  | Ev_GetStore u64
  | Ev_putStore "Store option"
  | Ev_handleStoreHeartbeat "StoreStats option"
  | Ev_WatchOperator u64 u64
  | Ev_go_pushRegionHeartbeatResponse
  | Ev_cached_handleRegionHeartbeat RegionInfo
  | Ev_handleRegionHeartbeat RegionInfo
  | Ev_sendToWatcher RegionInfo RegionHeartbeatResponse
  | Ev_GetRegionByKey bytes
  | Ev_GetRegionByID u64
  | Ev_handleAskSplit
  | Ev_handleReportSplit
  | Ev_GetConfig
  | Ev_putConfig "Cluster option"
  | Ev_Send_Tso TsoResponse

text \<open>The collaborators. A function that only reads takes the collaborator state; a
  function that may change it returns the new state as well. A Go result pair
  \<^verbatim>\<open>(value, err)\<close> stays a pair, with \<open>None\<close> for a nil error.
  \<open>c_GetRaftCluster\<close> tells whether \<^verbatim>\<open>s.GetRaftCluster()\<close> is non-nil; the methods
  of the cluster it returns act on the same collaborator state.\<close>

record 'w collab =
  c_IsLeader :: "'w \<Rightarrow> bool"
  c_isClosed :: "'w \<Rightarrow> bool"
  c_GetMembers :: "'w \<Rightarrow> Member list \<times> ext_error option"
  c_GetLeader :: "'w \<Rightarrow> Member option \<times> ext_error option"
  c_getRespTS :: "'w \<Rightarrow> 32 word \<Rightarrow> (Timestamp \<times> ext_error option) \<times> 'w"
  c_GetRaftCluster :: "'w \<Rightarrow> bool"
  c_bootstrapCluster :: "'w \<Rightarrow> BootstrapRequest \<Rightarrow> ext_error option \<times> 'w"
  c_Alloc :: "'w \<Rightarrow> (u64 \<times> ext_error option) \<times> 'w"
  c_GetStore :: "'w \<Rightarrow> u64 \<Rightarrow> Store option \<times> ext_error option"
  c_putStore :: "'w \<Rightarrow> Store option \<Rightarrow> ext_error option \<times> 'w"
  c_handleStoreHeartbeat :: "'w \<Rightarrow> StoreStats option \<Rightarrow> ext_error option \<times> 'w"
  c_WatchOperator :: "'w \<Rightarrow> u64 \<Rightarrow> u64 \<Rightarrow> 'w"
  c_cached_handleRegionHeartbeat :: "'w \<Rightarrow> RegionInfo \<Rightarrow> ext_error option \<times> 'w"
  c_handleRegionHeartbeat ::
    "'w \<Rightarrow> RegionInfo \<Rightarrow> (RegionHeartbeatResponse option \<times> ext_error option) \<times> 'w"
  c_sendToWatcher :: "'w \<Rightarrow> RegionInfo \<Rightarrow> RegionHeartbeatResponse \<Rightarrow> 'w"
  c_GetRegionByKey :: "'w \<Rightarrow> bytes \<Rightarrow> Region option \<times> Peer option"
  c_GetRegionByID :: "'w \<Rightarrow> u64 \<Rightarrow> Region option \<times> Peer option"
  c_handleAskSplit :: "'w \<Rightarrow> AskSplitRequest \<Rightarrow> (ext_error + (u64 \<times> u64 list)) \<times> 'w"
  c_handleReportSplit :: "'w \<Rightarrow> ReportSplitRequest \<Rightarrow> ext_error option \<times> 'w"
  c_GetConfig :: "'w \<Rightarrow> Cluster option"
  c_putConfig :: "'w \<Rightarrow> Cluster option \<Rightarrow> ext_error option \<times> 'w"

record 'w Server =
  clusterID :: u64
  regionHeartbeatUnaryMode :: bool
  world :: 'w
  calls :: "event list"

definition log_call :: "event \<Rightarrow> 'w Server \<Rightarrow> 'w Server" where
  "log_call e s = s\<lparr>calls := calls s @ [e]\<rparr>"

definition read_call :: "event \<Rightarrow> ('w \<Rightarrow> 'a) \<Rightarrow> 'w Server \<Rightarrow> 'a \<times> 'w Server" where
  "read_call e f s = (f (world s), log_call e s)"

definition write_call :: "event \<Rightarrow> ('w \<Rightarrow> 'a \<times> 'w) \<Rightarrow> 'w Server \<Rightarrow> 'a \<times> 'w Server" where
  "write_call e f s = (case f (world s) of (r, w') \<Rightarrow> (r, log_call e (s\<lparr>world := w'\<rparr>)))"

subsection \<open>The guard and the envelope builders\<close>

definition validateRequest ::
  "'w collab \<Rightarrow> 'w Server \<Rightarrow> RequestHeader option \<Rightarrow> go_error option \<times> 'w Server" where
  "validateRequest c s header =
     (let s' = log_call Ev_validateRequest s in
      if \<not> c_IsLeader c (world s') then (Some notLeaderError, s')
      else if GetClusterId header \<noteq> clusterID s' then
        (Some (grpc_Errorf codes_FailedPrecondition
                 ''mismatch cluster id, need %d but got %d''
                 [ArgUint (clusterID s'), ArgUint (GetClusterId header)]), s')
      else (None, s'))"

definition header :: "'w Server \<Rightarrow> ResponseHeader" where
  "header s = \<lparr>ClusterId = clusterID s, Error = None\<rparr>"

definition errorHeader :: "'w Server \<Rightarrow> pdpb_Error \<Rightarrow> ResponseHeader" where
  "errorHeader s err = \<lparr>ClusterId = clusterID s, Error = Some err\<rparr>"

definition notBootstrappedHeader :: "'w Server \<Rightarrow> ResponseHeader" where
  "notBootstrappedHeader s =
     errorHeader s \<lparr>err_Type = ErrorType_NOT_BOOTSTRAPPED,
                    err_Message = Lit ''cluster is not bootstrapped''\<rparr>"

subsection \<open>Collaborator calls, logged\<close>

definition isClosed :: "'w collab \<Rightarrow> 'w Server \<Rightarrow> bool \<times> 'w Server" where
  "isClosed c s = read_call Ev_isClosed (c_isClosed c) s"

definition etcd_GetMembers ::
  "'w collab \<Rightarrow> 'w Server \<Rightarrow> (Member list \<times> ext_error option) \<times> 'w Server" where
  "etcd_GetMembers c s = read_call Ev_GetMembers (c_GetMembers c) s"

definition GetLeader ::
  "'w collab \<Rightarrow> 'w Server \<Rightarrow> (Member option \<times> ext_error option) \<times> 'w Server" where
  "GetLeader c s = read_call Ev_GetLeader (c_GetLeader c) s"

definition getRespTS ::
  "'w collab \<Rightarrow> 'w Server \<Rightarrow> 32 word \<Rightarrow> (Timestamp \<times> ext_error option) \<times> 'w Server" where
  "getRespTS c s count = write_call (Ev_getRespTS count) (\<lambda>w. c_getRespTS c w count) s"

definition GetRaftCluster :: "'w collab \<Rightarrow> 'w Server \<Rightarrow> bool \<times> 'w Server" where
  "GetRaftCluster c s = read_call Ev_GetRaftCluster (c_GetRaftCluster c) s"

definition bootstrapCluster ::
  "'w collab \<Rightarrow> 'w Server \<Rightarrow> BootstrapRequest \<Rightarrow> ext_error option \<times> 'w Server" where
  "bootstrapCluster c s request =
     write_call Ev_bootstrapCluster (\<lambda>w. c_bootstrapCluster c w request) s"

definition idAlloc_Alloc ::
  "'w collab \<Rightarrow> 'w Server \<Rightarrow> (u64 \<times> ext_error option) \<times> 'w Server" where
  "idAlloc_Alloc c s = write_call Ev_Alloc (c_Alloc c) s"

definition cluster_GetStore ::
  "'w collab \<Rightarrow> 'w Server \<Rightarrow> u64 \<Rightarrow> (Store option \<times> ext_error option) \<times> 'w Server" where
  "cluster_GetStore c s storeID = read_call (Ev_GetStore storeID) (\<lambda>w. c_GetStore c w storeID) s"

definition cluster_putStore ::
  "'w collab \<Rightarrow> 'w Server \<Rightarrow> Store option \<Rightarrow> ext_error option \<times> 'w Server" where
  "cluster_putStore c s store = write_call (Ev_putStore store) (\<lambda>w. c_putStore c w store) s"

definition handleStoreHeartbeat ::
  "'w collab \<Rightarrow> 'w Server \<Rightarrow> StoreStats option \<Rightarrow> ext_error option \<times> 'w Server" where
  "handleStoreHeartbeat c s stats =
     write_call (Ev_handleStoreHeartbeat stats) (\<lambda>w. c_handleStoreHeartbeat c w stats) s"

definition WatchOperator :: "'w collab \<Rightarrow> 'w Server \<Rightarrow> u64 \<Rightarrow> u64 \<Rightarrow> 'w Server" where
  "WatchOperator c s storeID uid =
     log_call (Ev_WatchOperator storeID uid) (s\<lparr>world := c_WatchOperator c (world s) storeID uid\<rparr>)"

definition cached_handleRegionHeartbeat ::
  "'w collab \<Rightarrow> 'w Server \<Rightarrow> RegionInfo \<Rightarrow> ext_error option \<times> 'w Server" where
  "cached_handleRegionHeartbeat c s region =
     write_call (Ev_cached_handleRegionHeartbeat region)
       (\<lambda>w. c_cached_handleRegionHeartbeat c w region) s"

definition handleRegionHeartbeat ::
  "'w collab \<Rightarrow> 'w Server \<Rightarrow> RegionInfo
     \<Rightarrow> (RegionHeartbeatResponse option \<times> ext_error option) \<times> 'w Server" where
  "handleRegionHeartbeat c s region =
     write_call (Ev_handleRegionHeartbeat region) (\<lambda>w. c_handleRegionHeartbeat c w region) s"

definition sendToWatcher ::
  "'w collab \<Rightarrow> 'w Server \<Rightarrow> RegionInfo \<Rightarrow> RegionHeartbeatResponse \<Rightarrow> 'w Server" where
  "sendToWatcher c s region resp =
     log_call (Ev_sendToWatcher region resp)
       (s\<lparr>world := c_sendToWatcher c (world s) region resp\<rparr>)"

definition GetRegionByKey ::
  "'w collab \<Rightarrow> 'w Server \<Rightarrow> bytes \<Rightarrow> (Region option \<times> Peer option) \<times> 'w Server" where
  "GetRegionByKey c s key = read_call (Ev_GetRegionByKey key) (\<lambda>w. c_GetRegionByKey c w key) s"

definition GetRegionByID_cluster ::
  "'w collab \<Rightarrow> 'w Server \<Rightarrow> u64 \<Rightarrow> (Region option \<times> Peer option) \<times> 'w Server" where
  "GetRegionByID_cluster c s rid =
     read_call (Ev_GetRegionByID rid) (\<lambda>w. c_GetRegionByID c w rid) s"

definition handleAskSplit ::
  "'w collab \<Rightarrow> 'w Server \<Rightarrow> AskSplitRequest
     \<Rightarrow> (ext_error + (u64 \<times> u64 list)) \<times> 'w Server" where
  "handleAskSplit c s req = write_call Ev_handleAskSplit (\<lambda>w. c_handleAskSplit c w req) s"

definition handleReportSplit ::
  "'w collab \<Rightarrow> 'w Server \<Rightarrow> ReportSplitRequest \<Rightarrow> ext_error option \<times> 'w Server" where
  "handleReportSplit c s request =
     write_call Ev_handleReportSplit (\<lambda>w. c_handleReportSplit c w request) s"

definition GetConfig :: "'w collab \<Rightarrow> 'w Server \<Rightarrow> Cluster option \<times> 'w Server" where
  "GetConfig c s = read_call Ev_GetConfig (c_GetConfig c) s"

definition putConfig ::
  "'w collab \<Rightarrow> 'w Server \<Rightarrow> Cluster option \<Rightarrow> ext_error option \<times> 'w Server" where
  "putConfig c s conf = write_call (Ev_putConfig conf) (\<lambda>w. c_putConfig c w conf) s"

subsection \<open>Unary handlers\<close>

type_synonym 'r reply = "go_error + 'r"

definition GetMembers :: "'w collab \<Rightarrow> 'w Server \<Rightarrow> GetMembersResponse reply \<times> 'w Server" where
  "GetMembers c s =
     (case isClosed c s of (closed, s1) \<Rightarrow>
        if closed then (Inl (grpc_Errorf codes_Unknown ''server not started'' []), s1)
        else
          (case etcd_GetMembers c s1 of ((members, err), s2) \<Rightarrow>
             (case err of
                Some e \<Rightarrow> (Inl (grpc_Errorf codes_Unknown (Error_text e) []), s2)
              | None \<Rightarrow>
                 (case GetLeader c s2 of ((leader, err'), s3) \<Rightarrow>
                    (case err' of
                       Some e \<Rightarrow> (Inl (grpc_Errorf codes_Unknown (Error_text e) []), s3)
                     | None \<Rightarrow>
                        (Inr \<lparr>Header = Some (header s3), gm_Members = members,
                              gm_Leader = leader\<rparr>, s3))))))"

definition Bootstrap ::
  "'w collab \<Rightarrow> 'w Server \<Rightarrow> BootstrapRequest \<Rightarrow> Response reply \<times> 'w Server" where
  "Bootstrap c s request =
     (case validateRequest c s (GetHeader request) of
        (Some err, s1) \<Rightarrow> (Inl (Trace err), s1)
      | (None, s1) \<Rightarrow>
         (case GetRaftCluster c s1 of (cluster, s2) \<Rightarrow>
            if cluster then
              (Inr \<lparr>Header = Some (errorHeader s2
                      \<lparr>err_Type = ErrorType_ALREADY_BOOTSTRAPPED,
                       err_Message = Lit ''cluster is already bootstrapped''\<rparr>)\<rparr>, s2)
            else
              (case bootstrapCluster c s2 request of
                 (Some e, s3) \<Rightarrow> (Inl (grpc_Errorf codes_Unknown (Error_text e) []), s3)
               | (None, s3) \<Rightarrow> (Inr \<lparr>Header = Some (header s3)\<rparr>, s3))))"

definition IsBootstrapped ::
  "'w collab \<Rightarrow> 'w Server \<Rightarrow> Request \<Rightarrow> IsBootstrappedResponse reply \<times> 'w Server" where
  "IsBootstrapped c s request =
     (case validateRequest c s (GetHeader request) of
        (Some err, s1) \<Rightarrow> (Inl (Trace err), s1)
      | (None, s1) \<Rightarrow>
         (case GetRaftCluster c s1 of (cluster, s2) \<Rightarrow>
            (Inr \<lparr>Header = Some (header s2), ib_Bootstrapped = cluster\<rparr>, s2)))"

definition AllocID ::
  "'w collab \<Rightarrow> 'w Server \<Rightarrow> Request \<Rightarrow> AllocIDResponse reply \<times> 'w Server" where
  "AllocID c s request =
     (case validateRequest c s (GetHeader request) of
        (Some err, s1) \<Rightarrow> (Inl (Trace err), s1)
      | (None, s1) \<Rightarrow>
         (case idAlloc_Alloc c s1 of ((id', err), s2) \<Rightarrow>
            (case err of
               Some e \<Rightarrow> (Inl (grpc_Errorf codes_Unknown (Error_text e) []), s2)
             | None \<Rightarrow> (Inr \<lparr>Header = Some (header s2), ai_Id = id'\<rparr>, s2))))"

definition GetStore ::
  "'w collab \<Rightarrow> 'w Server \<Rightarrow> GetStoreRequest \<Rightarrow> GetStoreResponse reply \<times> 'w Server" where
  "GetStore c s request =
     (case validateRequest c s (GetHeader request) of
        (Some err, s1) \<Rightarrow> (Inl (Trace err), s1)
      | (None, s1) \<Rightarrow>
         (case GetRaftCluster c s1 of (cluster, s2) \<Rightarrow>
            if \<not> cluster then
              (Inr \<lparr>Header = Some (notBootstrappedHeader s2), gs_Store = None\<rparr>, s2)
            else
              (case cluster_GetStore c s2 (gs_StoreId request) of ((store, err), s3) \<Rightarrow>
                 (case err of
                    Some e \<Rightarrow> (Inl (grpc_Errorf codes_Unknown (Error_text e) []), s3)
                  | None \<Rightarrow> (Inr \<lparr>Header = Some (header s3), gs_Store = store\<rparr>, s3)))))"

definition checkStore2 ::
  "'w collab \<Rightarrow> 'w Server \<Rightarrow> u64 \<Rightarrow> pdpb_Error option \<times> 'w Server" where
  "checkStore2 c s storeID =
     (case cluster_GetStore c s storeID of ((store, err), s1) \<Rightarrow>
        if err = None \<and> store \<noteq> None \<and> Store_GetState store = StoreState_Tombstone then
          (Some \<lparr>err_Type = ErrorType_STORE_TOMBSTONE,
                 err_Message = Lit ''store is tombstone''\<rparr>, s1)
        else (None, s1))"

definition PutStore ::
  "'w collab \<Rightarrow> 'w Server \<Rightarrow> PutStoreRequest \<Rightarrow> Response reply \<times> 'w Server" where
  "PutStore c s request =
     (case validateRequest c s (GetHeader request) of
        (Some err, s1) \<Rightarrow> (Inl (Trace err), s1)
      | (None, s1) \<Rightarrow>
         (case GetRaftCluster c s1 of (cluster, s2) \<Rightarrow>
            if \<not> cluster then (Inr \<lparr>Header = Some (notBootstrappedHeader s2)\<rparr>, s2)
            else
              (let store = ps_Store request in
               case checkStore2 c s2 (Store_GetId store) of
                 (Some pberr, s3) \<Rightarrow> (Inr \<lparr>Header = Some (errorHeader s3 pberr)\<rparr>, s3)
               | (None, s3) \<Rightarrow>
                  (case cluster_putStore c s3 store of
                     (Some e, s4) \<Rightarrow> (Inl (grpc_Errorf codes_Unknown (Error_text e) []), s4)
                   | (None, s4) \<Rightarrow> (Inr \<lparr>Header = Some (header s4)\<rparr>, s4)))))"

definition StoreHeartbeat ::
  "'w collab \<Rightarrow> 'w Server \<Rightarrow> StoreHeartbeatRequest \<Rightarrow> Response reply \<times> 'w Server" where
  "StoreHeartbeat c s request =
     (case validateRequest c s (GetHeader request) of
        (Some err, s1) \<Rightarrow> (Inl (Trace err), s1)
      | (None, s1) \<Rightarrow>
         if sh_Stats request = None then
           (Inl (errors_Errorf ''invalid store heartbeat command, but %v''
                   [ArgStoreHeartbeatRequest request]), s1)
         else
           (case GetRaftCluster c s1 of (cluster, s2) \<Rightarrow>
              if \<not> cluster then (Inr \<lparr>Header = Some (notBootstrappedHeader s2)\<rparr>, s2)
              else
                (case checkStore2 c s2 (StoreStats_GetStoreId (sh_Stats request)) of
                   (Some pberr, s3) \<Rightarrow> (Inr \<lparr>Header = Some (errorHeader s3 pberr)\<rparr>, s3)
                 | (None, s3) \<Rightarrow>
                    (case handleStoreHeartbeat c s3 (sh_Stats request) of
                       (Some e, s4) \<Rightarrow>
                         (Inl (grpc_Errorf codes_Unknown (Error_text e) []), s4)
                     | (None, s4) \<Rightarrow> (Inr \<lparr>Header = Some (header s4)\<rparr>, s4)))))"

definition GetRegion ::
  "'w collab \<Rightarrow> 'w Server \<Rightarrow> GetRegionRequest \<Rightarrow> GetRegionResponse reply \<times> 'w Server" where
  "GetRegion c s request =
     (case validateRequest c s (GetHeader request) of
        (Some err, s1) \<Rightarrow> (Inl (Trace err), s1)
      | (None, s1) \<Rightarrow>
         (case GetRaftCluster c s1 of (cluster, s2) \<Rightarrow>
            if \<not> cluster then
              (Inr \<lparr>Header = Some (notBootstrappedHeader s2), gr_Region = None,
                    gr_Leader = None\<rparr>, s2)
            else
              (case GetRegionByKey c s2 (gr_RegionKey request) of ((region, leader), s3) \<Rightarrow>
                 (Inr \<lparr>Header = Some (header s3), gr_Region = region,
                       gr_Leader = leader\<rparr>, s3))))"

definition GetRegionByID ::
  "'w collab \<Rightarrow> 'w Server \<Rightarrow> GetRegionByIDRequest \<Rightarrow> GetRegionResponse reply \<times> 'w Server" where
  "GetRegionByID c s request =
     (case validateRequest c s (GetHeader request) of
        (Some err, s1) \<Rightarrow> (Inl (Trace err), s1)
      | (None, s1) \<Rightarrow>
         (case GetRaftCluster c s1 of (cluster, s2) \<Rightarrow>
            if \<not> cluster then
              (Inr \<lparr>Header = Some (notBootstrappedHeader s2), gr_Region = None,
                    gr_Leader = None\<rparr>, s2)
            else
              (let id' = grid_RegionId request in
               case GetRegionByID_cluster c s2 id' of ((region, leader), s3) \<Rightarrow>
                 (Inr \<lparr>Header = Some (header s3), gr_Region = region,
                       gr_Leader = leader\<rparr>, s3))))"

definition AskSplit ::
  "'w collab \<Rightarrow> 'w Server \<Rightarrow> AskSplitRequest \<Rightarrow> AskSplitResponse reply \<times> 'w Server" where
  "AskSplit c s request =
     (case validateRequest c s (GetHeader request) of
        (Some err, s1) \<Rightarrow> (Inl (Trace err), s1)
      | (None, s1) \<Rightarrow>
         (case GetRaftCluster c s1 of (cluster, s2) \<Rightarrow>
            if \<not> cluster then
              (Inr \<lparr>Header = Some (notBootstrappedHeader s2), as_NewRegionId = 0,
                    as_NewPeerIds = []\<rparr>, s2)
            else if Region_GetStartKey (as_Region request) = None then
              (Inl (errors_New ''missing region start key for split''), s2)
            else
              (let req = \<lparr>req_Header = None, as_Region = as_Region request\<rparr> in
               case handleAskSplit c s2 req of
                 (Inl e, s3) \<Rightarrow> (Inl (grpc_Errorf codes_Unknown (Error_text e) []), s3)
               | (Inr split, s3) \<Rightarrow>
                  (Inr \<lparr>Header = Some (header s3), as_NewRegionId = fst split,
                        as_NewPeerIds = snd split\<rparr>, s3))))"

definition ReportSplit ::
  "'w collab \<Rightarrow> 'w Server \<Rightarrow> ReportSplitRequest \<Rightarrow> Response reply \<times> 'w Server" where
  "ReportSplit c s request =
     (case validateRequest c s (GetHeader request) of
        (Some err, s1) \<Rightarrow> (Inl (Trace err), s1)
      | (None, s1) \<Rightarrow>
         (case GetRaftCluster c s1 of (cluster, s2) \<Rightarrow>
            if \<not> cluster then (Inr \<lparr>Header = Some (notBootstrappedHeader s2)\<rparr>, s2)
            else
              (case handleReportSplit c s2 request of
                 (Some e, s3) \<Rightarrow> (Inl (grpc_Errorf codes_Unknown (Error_text e) []), s3)
               | (None, s3) \<Rightarrow> (Inr \<lparr>Header = Some (header s3)\<rparr>, s3))))"

definition GetClusterConfig ::
  "'w collab \<Rightarrow> 'w Server \<Rightarrow> Request \<Rightarrow> GetClusterConfigResponse reply \<times> 'w Server" where
  "GetClusterConfig c s request =
     (case validateRequest c s (GetHeader request) of
        (Some err, s1) \<Rightarrow> (Inl (Trace err), s1)
      | (None, s1) \<Rightarrow>
         (case GetRaftCluster c s1 of (cluster, s2) \<Rightarrow>
            if \<not> cluster then
              (Inr \<lparr>Header = Some (notBootstrappedHeader s2), gc_Cluster = None\<rparr>, s2)
            else
              (case GetConfig c s2 of (conf, s3) \<Rightarrow>
                 (Inr \<lparr>Header = Some (header s3), gc_Cluster = conf\<rparr>, s3))))"

definition PutClusterConfig ::
  "'w collab \<Rightarrow> 'w Server \<Rightarrow> PutClusterConfigRequest \<Rightarrow> Response reply \<times> 'w Server" where
  "PutClusterConfig c s request =
     (case validateRequest c s (GetHeader request) of
        (Some err, s1) \<Rightarrow> (Inl (Trace err), s1)
      | (None, s1) \<Rightarrow>
         (case GetRaftCluster c s1 of (cluster, s2) \<Rightarrow>
            if \<not> cluster then (Inr \<lparr>Header = Some (notBootstrappedHeader s2)\<rparr>, s2)
            else
              (let conf = pc_Cluster request in
               case putConfig c s2 conf of
                 (Some e, s3) \<Rightarrow> (Inl (grpc_Errorf codes_Unknown (Error_text e) []), s3)
               | (None, s3) \<Rightarrow> (Inr \<lparr>Header = Some (header s3)\<rparr>, s3))))"

subsection \<open>Streams\<close>

text \<open>A stream handler is run against a finite schedule of what its blocking
  operations deliver. When the schedule is used up the handler has not returned: it
  waits in \<^verbatim>\<open>Recv\<close> (or in a \<^verbatim>\<open>select\<close>).\<close>

datatype 'a recv = Recv_EOF | Recv_Err ext_error | Recv_Msg 'a

datatype control = Next | Ret "go_error option"

datatype stream_result = Waiting | Returned "go_error option"

subsubsection \<open>Tso\<close>

text \<open>One iteration of the loop of \<^verbatim>\<open>Tso\<close> (lines 57-81). \<open>send_err\<close> is what
  \<^verbatim>\<open>stream.Send\<close> returns if the iteration gets that far.\<close>

definition Tso_body ::
  "'w collab \<Rightarrow> 'w Server \<Rightarrow> TsoRequest recv \<Rightarrow> ext_error option \<Rightarrow> control \<times> 'w Server" where
  "Tso_body c s r send_err =
     (case r of
        Recv_EOF \<Rightarrow> (Ret None, s)
      | Recv_Err e \<Rightarrow> (Ret (Some (Trace (External e))), s)
      | Recv_Msg request \<Rightarrow>
         (case validateRequest c s (GetHeader request) of
            (Some err, s1) \<Rightarrow> (Ret (Some (Trace err)), s1)
          | (None, s1) \<Rightarrow>
             (let count = tso_Count request in
              case getRespTS c s1 count of ((ts, err), s2) \<Rightarrow>
                (case err of
                   Some e \<Rightarrow> (Ret (Some (grpc_Errorf codes_Unknown (Error_text e) [])), s2)
                 | None \<Rightarrow>
                    (let response = \<lparr>Header = Some (header s2), tso_Timestamp = Some ts,
                                      tso_RespCount = count\<rparr>;
                         s3 = log_call (Ev_Send_Tso response) s2
                     in case send_err of
                          Some e \<Rightarrow> (Ret (Some (Trace (External e))), s3)
                        | None \<Rightarrow> (Next, s3))))))"

fun Tso ::
  "'w collab \<Rightarrow> 'w Server \<Rightarrow> (TsoRequest recv \<times> ext_error option) list
     \<Rightarrow> stream_result \<times> 'w Server" where
  "Tso c s [] = (Waiting, s)"
| "Tso c s (x # xs) =
     (case Tso_body c s (fst x) (snd x) of
        (Ret r, s') \<Rightarrow> (Returned r, s')
      | (Next, s') \<Rightarrow> Tso c s' xs)"

subsubsection \<open>The pusher of a region heartbeat stream\<close>

text \<open>Modelled from the spec: the \<^verbatim>\<open>operatorRequest\<close> struct is declared in
  another file of the package. Per the acknowledgement protocol of the specification
  an instruction carries its response payload (\<^verbatim>\<open>req.resp\<close>) and a dedicated
  acknowledgement slot (\<^verbatim>\<open>req.err\<close>, a channel, identified here by a number).\<close>

record operatorRequest =
  or_resp :: RegionHeartbeatResponse
  or_err :: nat

text \<open>What one \<^verbatim>\<open>select\<close> of the pusher delivers: the stream's context is done, or
  the watcher yields an instruction; the latter comes with the result that
  \<^verbatim>\<open>stream.Send\<close> will return for it. The pusher records what it does as a list of
  actions: a write to the stream with its result, the report of a result on the slot of
  an instruction, a signal on the error channel. The assignment of line 243 replaces
  whatever header the instruction came with.\<close>

datatype select_event = Ctx_Done | Watcher_Recv operatorRequest "ext_error option"

datatype push_action =
    Act_Send RegionHeartbeatResponse "ext_error option"
  | Act_Ack nat "ext_error option"
  | Act_errChan ext_error

datatype pusher_status = Pusher_Waiting | Pusher_Returned

fun pushRegionHeartbeatResponse ::
  "'w Server \<Rightarrow> select_event list \<Rightarrow> push_action list \<times> pusher_status" where
  "pushRegionHeartbeatResponse s [] = ([], Pusher_Waiting)"
| "pushRegionHeartbeatResponse s (Ctx_Done # rest) = ([], Pusher_Returned)"
| "pushRegionHeartbeatResponse s (Watcher_Recv req send_err # rest) =
     (let resp = (or_resp req)\<lparr>Header := Some (header s)\<rparr>;
          acts = [Act_Send resp send_err, Act_Ack (or_err req) send_err]
      in case send_err of
           Some e \<Rightarrow> (acts @ [Act_errChan e], Pusher_Returned)
         | None \<Rightarrow>
            (case pushRegionHeartbeatResponse s rest of
               (acts', st) \<Rightarrow> (acts @ acts', st)))"

subsubsection \<open>RegionHeartbeat\<close>

definition sendErrorRegionHeartbeatResponse ::
  "'w collab \<Rightarrow> 'w Server \<Rightarrow> RegionInfo \<Rightarrow> u64 \<Rightarrow> ErrorType \<Rightarrow> message
     \<Rightarrow> go_error option \<times> 'w Server" where
  "sendErrorRegionHeartbeatResponse c s region cid ty msg =
     (let pberr = \<lparr>err_Type = ty, err_Message = msg\<rparr>;
          resp = \<lparr>Header = Some \<lparr>ClusterId = cid, Error = Some pberr\<rparr>,
                  rhb_ChangePeer = None, rhb_TransferLeader = None\<rparr>
      in (None, sendToWatcher c s region resp))"

text \<open>The five call sites of \<^verbatim>\<open>sendErrorRegionHeartbeatResponse\<close> in the receive loop
  (lines 294-298, 303-307, 311-315, 321-325, 331-335) have one shape: push an
  \<^verbatim>\<open>UNKNOWN\<close> error with the server's cluster id, return if that failed, else
  \<^verbatim>\<open>continue\<close>.\<close>

definition push_error_or_return ::
  "'w collab \<Rightarrow> 'w Server \<Rightarrow> RegionInfo \<Rightarrow> message \<Rightarrow> control \<times> 'w Server" where
  "push_error_or_return c s region msg =
     (case sendErrorRegionHeartbeatResponse c s region (clusterID s) ErrorType_UNKNOWN msg of
        (Some err, s') \<Rightarrow> (Ret (Some (Trace err)), s')
      | (None, s') \<Rightarrow> (Next, s'))"

text \<open>The block run for the first message of a stream (lines 272-284).\<close>

definition RegionHeartbeat_first ::
  "'w collab \<Rightarrow> 'w Server \<Rightarrow> RegionHeartbeatRequest \<Rightarrow> go_error option \<times> 'w Server" where
  "RegionHeartbeat_first c s request =
     (case validateRequest c s (GetHeader request) of
        (Some err, s1) \<Rightarrow> (Some (Trace err), s1)
      | (None, s1) \<Rightarrow>
         (let storeID = Peer_GetStoreId (rhb_Leader request) in
          case idAlloc_Alloc c s1 of ((uid, err), s2) \<Rightarrow>
            (case err of
               Some e \<Rightarrow> (Some (Trace (External e)), s2)
             | None \<Rightarrow>
                (None, log_call Ev_go_pushRegionHeartbeatResponse
                         (WatchOperator c s2 storeID uid)))))"

text \<open>The processing of one received message (lines 286-346).\<close>

definition RegionHeartbeat_message ::
  "'w collab \<Rightarrow> 'w Server \<Rightarrow> RegionHeartbeatRequest \<Rightarrow> control \<times> 'w Server" where
  "RegionHeartbeat_message c s request =
     (let region = (newRegionInfo (rhb_Region request) (rhb_Leader request))
                     \<lparr>ri_DownPeers := rhb_DownPeers request,
                      ri_PendingPeers := rhb_PendingPeers request,
                      ri_WrittenBytes := rhb_BytesWritten request\<rparr>
      in case GetRaftCluster c s of (cluster, s1) \<Rightarrow>
        if \<not> cluster then
          push_error_or_return c s1 region (Lit ''cluster is not bootstrapped'')
        else if RegionInfo_GetId region = 0 then
          push_error_or_return c s1 region
            (Sprintf ''invalid request region, %v'' [ArgRegionHeartbeatRequest request])
        else if ri_Leader region = None then
          push_error_or_return c s1 region
            (Sprintf ''invalid request leader, %v'' [ArgRegionHeartbeatRequest request])
        else
          (case cached_handleRegionHeartbeat c s1 region of
             (Some e, s2) \<Rightarrow> push_error_or_return c s2 region (Lit (Error_text e))
           | (None, s2) \<Rightarrow>
              (case handleRegionHeartbeat c s2 region of ((resp, err), s3) \<Rightarrow>
                 (case err of
                    Some e \<Rightarrow> push_error_or_return c s3 region (Lit (Error_text e))
                  | None \<Rightarrow>
                     if resp = None then
                       (if regionHeartbeatUnaryMode s3 then
                          (Next, sendToWatcher c s3 region
                                   \<lparr>Header = None, rhb_ChangePeer = None,
                                    rhb_TransferLeader = None\<rparr>)
                        else (Next, s3))
                     else (Next, s3)))))"

text \<open>One iteration of the receive loop (lines 259-348). \<open>poll\<close> is what the
  non-blocking receive on \<^verbatim>\<open>errChan\<close> finds: an error the pusher is handing over, or
  nothing.\<close>

definition RegionHeartbeat_body ::
  "'w collab \<Rightarrow> bool \<Rightarrow> 'w Server \<Rightarrow> ext_error option \<Rightarrow> RegionHeartbeatRequest recv
     \<Rightarrow> control \<times> bool \<times> 'w Server" where
  "RegionHeartbeat_body c isNewStream s poll r =
     (case poll of
        Some err \<Rightarrow> (Ret (Some (Trace (External err))), isNewStream, s)
      | None \<Rightarrow>
         (case r of
            Recv_EOF \<Rightarrow> (Ret None, isNewStream, s)
          | Recv_Err e \<Rightarrow> (Ret (Some (Trace (External e))), isNewStream, s)
          | Recv_Msg request \<Rightarrow>
             if isNewStream then
               (case RegionHeartbeat_first c s request of
                  (Some err, s1) \<Rightarrow> (Ret (Some err), isNewStream, s1)
                | (None, s1) \<Rightarrow>
                   (case RegionHeartbeat_message c s1 request of
                      (ctl, s2) \<Rightarrow> (ctl, False, s2)))
             else
               (case RegionHeartbeat_message c s request of
                  (ctl, s2) \<Rightarrow> (ctl, False, s2))))"

fun RegionHeartbeat_loop ::
  "'w collab \<Rightarrow> bool \<Rightarrow> 'w Server \<Rightarrow> (ext_error option \<times> RegionHeartbeatRequest recv) list
     \<Rightarrow> stream_result \<times> 'w Server" where
  "RegionHeartbeat_loop c isNewStream s [] = (Waiting, s)"
| "RegionHeartbeat_loop c isNewStream s (x # xs) =
     (case RegionHeartbeat_body c isNewStream s (fst x) (snd x) of
        (Ret r, isNewStream', s') \<Rightarrow> (Returned r, s')
      | (Next, isNewStream', s') \<Rightarrow> RegionHeartbeat_loop c isNewStream' s' xs)"

definition RegionHeartbeat ::
  "'w collab \<Rightarrow> 'w Server \<Rightarrow> (ext_error option \<times> RegionHeartbeatRequest recv) list
     \<Rightarrow> stream_result \<times> 'w Server" where
  "RegionHeartbeat c s inputs = RegionHeartbeat_loop c True s inputs"

subsection \<open>Observing a run\<close>

text \<open>The calls a run has added to the log.\<close>

definition new_calls :: "'w Server \<Rightarrow> 'w Server \<Rightarrow> event list" where
  "new_calls s s' = drop (length (calls s)) (calls s')"

text \<open>The first call of a run is the guard.\<close>

definition guard_first :: "event list \<Rightarrow> bool" where
  "guard_first evs = (case evs of [] \<Rightarrow> False | e # _ \<Rightarrow> e = Ev_validateRequest)"

text \<open>The error type carried by the envelope of a reply, if the reply is a response
  (and not a transport failure) whose header holds an error.\<close>

definition reply_error_type :: "'a Response_scheme reply \<Rightarrow> ErrorType option" where
  "reply_error_type r =
     (case r of
        Inl _ \<Rightarrow> None
      | Inr resp \<Rightarrow>
         (case Header resp of
            None \<Rightarrow> None
          | Some h \<Rightarrow> (case Error h of None \<Rightarrow> None | Some e \<Rightarrow> Some (err_Type e))))"

text \<open>The error carried by an instruction handed to the watcher, if any.\<close>

definition instruction_error :: "RegionHeartbeatResponse \<Rightarrow> pdpb_Error option" where
  "instruction_error resp = (case Header resp of None \<Rightarrow> None | Some h \<Rightarrow> Error h)"

text \<open>A request header passes the guard of the server.\<close>

definition admitted :: "'w collab \<Rightarrow> 'w Server \<Rightarrow> RequestHeader option \<Rightarrow> bool" where
  "admitted c s hdr = (c_IsLeader c (world s) \<and> GetClusterId hdr = clusterID s)"


text \<open>The region information the receive loop builds from a heartbeat (lines 286-289).\<close>

definition heartbeat_region :: "RegionHeartbeatRequest \<Rightarrow> RegionInfo" where
  "heartbeat_region request =
     (newRegionInfo (rhb_Region request) (rhb_Leader request))
       \<lparr>ri_DownPeers := rhb_DownPeers request,
        ri_PendingPeers := rhb_PendingPeers request,
        ri_WrittenBytes := rhb_BytesWritten request\<rparr>"

text \<open>The cluster records the store as tombstone: the lookup succeeds and finds a
  store in that state.\<close>

definition tombstoned :: "'w collab \<Rightarrow> 'w Server \<Rightarrow> u64 \<Rightarrow> bool" where
  "tombstoned c s storeID =
     (case c_GetStore c (world s) storeID of
        (Some st, None) \<Rightarrow> store_State st = StoreState_Tombstone
      | _ \<Rightarrow> False)"

text \<open>The lookup of the store fails, or finds no store.\<close>

definition lookup_unsuccessful :: "'w collab \<Rightarrow> 'w Server \<Rightarrow> u64 \<Rightarrow> bool" where
  "lookup_unsuccessful c s storeID =
     (snd (c_GetStore c (world s) storeID) \<noteq> None \<or> fst (c_GetStore c (world s) storeID) = None)"

fun is_store_write :: "event \<Rightarrow> bool" where
  "is_store_write (Ev_putStore _) = True"
| "is_store_write (Ev_handleStoreHeartbeat _) = True"
| "is_store_write _ = False"

text \<open>A heartbeat is malformed when its region has id 0 (or is absent) or its leader
  is absent.\<close>

definition malformed :: "RegionHeartbeatRequest \<Rightarrow> bool" where
  "malformed request = (Region_GetId (rhb_Region request) = 0 \<or> rhb_Leader request = None)"

fun is_ingestion :: "event \<Rightarrow> bool" where
  "is_ingestion (Ev_cached_handleRegionHeartbeat _) = True"
| "is_ingestion (Ev_handleRegionHeartbeat _) = True"
| "is_ingestion _ = False"

text \<open>A select of the pusher that takes an instruction and writes it successfully.\<close>

fun delivered :: "select_event \<Rightarrow> bool" where
  "delivered (Watcher_Recv _ None) = True"
| "delivered _ = False"

text \<open>What the pusher does with one instruction it has taken: the write, then the
  report of the write's outcome on the slot of that instruction.\<close>

definition push_one :: "'w Server \<Rightarrow> operatorRequest \<Rightarrow> ext_error option \<Rightarrow> push_action list" where
  "push_one s req out =
     [Act_Send ((or_resp req)\<lparr>Header := Some (header s)\<rparr>) out, Act_Ack (or_err req) out]"

fun push_delivered :: "'w Server \<Rightarrow> select_event \<Rightarrow> push_action list" where
  "push_delivered s (Watcher_Recv req out) = push_one s req out"
| "push_delivered s Ctx_Done = []"

text \<open>A header carries the given cluster id.\<close>

definition header_of :: "u64 \<Rightarrow> ResponseHeader option \<Rightarrow> bool" where
  "header_of cid h = (case h of None \<Rightarrow> False | Some x \<Rightarrow> ClusterId x = cid)"

text \<open>A reply that is a response has a header with the given cluster id.\<close>

definition reply_cluster_ok :: "u64 \<Rightarrow> 'a Response_scheme reply \<Rightarrow> bool" where
  "reply_cluster_ok cid r = (case r of Inl _ \<Rightarrow> True | Inr resp \<Rightarrow> header_of cid (Header resp))"

text \<open>The responses that appear in a logged call: a Tso response written to the
  stream has a header with the given cluster id; an instruction handed to the watcher
  has such a header or, in the case of the placeholder of the unary mode (line 340),
  no header yet (the pusher sets it before the write).\<close>

fun event_cluster_ok :: "u64 \<Rightarrow> event \<Rightarrow> bool" where
  "event_cluster_ok cid (Ev_Send_Tso resp) = header_of cid (Header resp)"
| "event_cluster_ok cid (Ev_sendToWatcher region resp) =
     (Header resp = None \<or> header_of cid (Header resp))"
| "event_cluster_ok cid _ = True"

fun action_cluster_ok :: "u64 \<Rightarrow> push_action \<Rightarrow> bool" where
  "action_cluster_ok cid (Act_Send resp out) = header_of cid (Header resp)"
| "action_cluster_ok cid _ = True"

subsection \<open>A small instance of the collaborators\<close>

text \<open>A concrete collaborator state, used to run the handlers on concrete requests:
  a leadership flag, the running flag of the raft cluster, the recorded stores and a
  counter that serves ids and timestamps.\<close>

record demo_world =
  dw_leader :: bool
  dw_running :: bool
  dw_stores :: "(u64 \<times> Store) list"
  dw_next :: u64

definition demo_collab :: "demo_world collab" where
  "demo_collab =
     \<lparr>c_IsLeader = dw_leader,
      c_isClosed = (\<lambda>w. False),
      c_GetMembers = (\<lambda>w. ([], None)),
      c_GetLeader = (\<lambda>w. (None, None)),
      c_getRespTS = (\<lambda>w n. ((\<lparr>ts_Physical = dw_next w, ts_Logical = 0\<rparr>, None),
                               w\<lparr>dw_next := dw_next w + 1\<rparr>)),
      c_GetRaftCluster = dw_running,
      c_bootstrapCluster = (\<lambda>w req. (None, w\<lparr>dw_running := True\<rparr>)),
      c_Alloc = (\<lambda>w. ((dw_next w, None), w\<lparr>dw_next := dw_next w + 1\<rparr>)),
      c_GetStore = (\<lambda>w i. (map_of (dw_stores w) i, None)),
      c_putStore = (\<lambda>w st. (None, case st of None \<Rightarrow> w
                      | Some x \<Rightarrow> w\<lparr>dw_stores := (store_Id x, x) # dw_stores w\<rparr>)),
      c_handleStoreHeartbeat = (\<lambda>w st. (None, w)),
      c_WatchOperator = (\<lambda>w sid uid. w),
      c_cached_handleRegionHeartbeat = (\<lambda>w r. (None, w)),
      c_handleRegionHeartbeat = (\<lambda>w r. ((None, None), w)),
      c_sendToWatcher = (\<lambda>w r resp. w),
      c_GetRegionByKey = (\<lambda>w k. (None, None)),
      c_GetRegionByID = (\<lambda>w i. (None, None)),
      c_handleAskSplit = (\<lambda>w r. (Inr (dw_next w, []), w\<lparr>dw_next := dw_next w + 1\<rparr>)),
      c_handleReportSplit = (\<lambda>w r. (None, w)),
      c_GetConfig = (\<lambda>w. None),
      c_putConfig = (\<lambda>w conf. (None, w))\<rparr>"

text \<open>A server with cluster id 7 whose cluster records store 1 as tombstone.\<close>

definition demo_server :: "bool \<Rightarrow> bool \<Rightarrow> demo_world Server" where
  "demo_server leader running =
     \<lparr>clusterID = 7, regionHeartbeatUnaryMode = False,
      world = \<lparr>dw_leader = leader, dw_running = running,
               dw_stores = [(1, \<lparr>store_Id = 1, store_Address = ''tikv1'',
                                store_State = StoreState_Tombstone\<rparr>)],
               dw_next = 100\<rparr>,
      calls = []\<rparr>"

definition hdr7 :: "RequestHeader option" where
  "hdr7 = Some \<lparr>rh_ClusterId = 7\<rparr>"

text \<open>A timestamp request with the server's cluster id.\<close>

definition tso_req :: TsoRequest where
  "tso_req = \<lparr>req_Header = hdr7, tso_Count = 1\<rparr>"

text \<open>A heartbeat that reports no region and no leader.\<close>

definition empty_heartbeat :: RegionHeartbeatRequest where
  "empty_heartbeat =
     \<lparr>req_Header = hdr7, rhb_Region = None, rhb_Leader = None, rhb_DownPeers = [],
      rhb_PendingPeers = [], rhb_BytesWritten = 0\<rparr>"

text \<open>Requests that target store 1, and a request that targets the unknown store 2.\<close>

definition put_store1 :: PutStoreRequest where
  "put_store1 =
     \<lparr>req_Header = hdr7,
      ps_Store = Some \<lparr>store_Id = 1, store_Address = ''tikv1'', store_State = StoreState_Up\<rparr>\<rparr>"

definition put_store2 :: PutStoreRequest where
  "put_store2 =
     \<lparr>req_Header = hdr7,
      ps_Store = Some \<lparr>store_Id = 2, store_Address = ''tikv2'', store_State = StoreState_Up\<rparr>\<rparr>"

definition heartbeat_store1 :: StoreHeartbeatRequest where
  "heartbeat_store1 =
     \<lparr>req_Header = hdr7,
      sh_Stats = Some \<lparr>stats_StoreId = 1, stats_Capacity = 0, stats_Available = 0\<rparr>\<rparr>"

definition heartbeat_store2 :: StoreHeartbeatRequest where
  "heartbeat_store2 =
     \<lparr>req_Header = hdr7,
      sh_Stats = Some \<lparr>stats_StoreId = 2, stats_Capacity = 0, stats_Available = 0\<rparr>\<rparr>"

text \<open>Collaborators whose cluster initialization fails.\<close>

definition failing_bootstrap :: "demo_world collab" where
  "failing_bootstrap =
     demo_collab\<lparr>c_bootstrapCluster := (\<lambda>w req. (Some (ExtError ''etcd unavailable''), w))\<rparr>"

definition bootstrap_req :: BootstrapRequest where
  "bootstrap_req = \<lparr>req_Header = hdr7, bs_Store = None, bs_Region = None\<rparr>"

definition instruction :: "nat \<Rightarrow> operatorRequest" where
  "instruction n =
     \<lparr>or_resp = \<lparr>Header = None, rhb_ChangePeer = None, rhb_TransferLeader = None\<rparr>,
      or_err = n\<rparr>"

section \<open>Properties\<close>

lemmas call_defs = log_call_def read_call_def write_call_def isClosed_def etcd_GetMembers_def
  GetLeader_def getRespTS_def GetRaftCluster_def bootstrapCluster_def idAlloc_Alloc_def
  cluster_GetStore_def cluster_putStore_def handleStoreHeartbeat_def WatchOperator_def
  cached_handleRegionHeartbeat_def handleRegionHeartbeat_def sendToWatcher_def
  GetRegionByKey_def GetRegionByID_cluster_def handleAskSplit_def handleReportSplit_def
  GetConfig_def putConfig_def

lemmas demo_defs = demo_collab_def demo_server_def hdr7_def GetHeader_def GetClusterId_def

subsection \<open>The guard\<close>

lemma validateRequest_snd: "snd (validateRequest c s hdr) = log_call Ev_validateRequest s"
  by (simp add: validateRequest_def Let_def)

lemma admitted_iff: "admitted c s hdr \<longleftrightarrow> fst (validateRequest c s hdr) = None"
  by (simp add: admitted_def validateRequest_def Let_def log_call_def)

text \<open>
  C7. The guard \<open>validateRequest\<close> fails with the gRPC status "not leader" (code
  Unavailable) whenever the server is not the leader; when it is the leader and the
  cluster id of the request header differs from the server's, it fails with a gRPC
  status (code FailedPrecondition) whose arguments are the expected and the received
  cluster id; when it is the leader and the ids agree it returns no error. In every
  case the collaborator state is unchanged and the only call logged is the guard
  itself.
\<close>

theorem validateRequest_guard:
  "(\<not> c_IsLeader c (world s) \<longrightarrow>
      fst (validateRequest c s hdr) = Some (grpc_Errorf codes_Unavailable ''not leader'' [])) \<and>
   (c_IsLeader c (world s) \<and> GetClusterId hdr \<noteq> clusterID s \<longrightarrow>
      fst (validateRequest c s hdr) =
        Some (grpc_Errorf codes_FailedPrecondition ''mismatch cluster id, need %d but got %d''
                [ArgUint (clusterID s), ArgUint (GetClusterId hdr)])) \<and>
   (c_IsLeader c (world s) \<and> GetClusterId hdr = clusterID s \<longrightarrow>
      fst (validateRequest c s hdr) = None) \<and>
   world (snd (validateRequest c s hdr)) = world s \<and>
   new_calls s (snd (validateRequest c s hdr)) = [Ev_validateRequest]"
  by (simp add: validateRequest_def Let_def log_call_def new_calls_def notLeaderError_def)

theorem validateRequest_guard_witness:
  "fst (validateRequest demo_collab (demo_server False True) (Some \<lparr>rh_ClusterId = 7\<rparr>)) =
     Some (grpc_Errorf codes_Unavailable ''not leader'' []) \<and>
   fst (validateRequest demo_collab (demo_server True True) (Some \<lparr>rh_ClusterId = 8\<rparr>)) =
     Some (grpc_Errorf codes_FailedPrecondition ''mismatch cluster id, need %d but got %d''
             [ArgUint 7, ArgUint 8]) \<and>
   fst (validateRequest demo_collab (demo_server True True) (Some \<lparr>rh_ClusterId = 7\<rparr>)) = None"
  using validateRequest_guard [of demo_collab "demo_server False True" "Some \<lparr>rh_ClusterId = 7\<rparr>"]
        validateRequest_guard [of demo_collab "demo_server True True" "Some \<lparr>rh_ClusterId = 8\<rparr>"]
        validateRequest_guard [of demo_collab "demo_server True True" "Some \<lparr>rh_ClusterId = 7\<rparr>"]
  by (simp add: demo_collab_def demo_server_def GetClusterId_def)

subsection \<open>Synthesized error instructions\<close>

lemma sendError_fst: "fst (sendErrorRegionHeartbeatResponse c s region cid ty msg) = None"
  by (simp add: sendErrorRegionHeartbeatResponse_def Let_def)

lemma push_error_eq:
  "push_error_or_return c s region msg =
     (Next, snd (sendErrorRegionHeartbeatResponse c s region (clusterID s) ErrorType_UNKNOWN msg))"
  by (simp add: push_error_or_return_def sendErrorRegionHeartbeatResponse_def Let_def)

lemma message_fst: "fst (RegionHeartbeat_message c s request) = Next"
  by (simp add: RegionHeartbeat_message_def push_error_eq Let_def
           split: prod.splits option.splits)

text \<open>
  C10. \<open>sendErrorRegionHeartbeatResponse\<close> returns nil on every input. Hence the
  error-return branch after each of its call sites is never taken (the call site always
  continues), the processing of a received message never makes the receive loop
  return, and an iteration that receives a message can only return from the
  first-message block (guard or id allocation), never from a per-message error.
\<close>

theorem sendError_never_fails:
  "fst (sendErrorRegionHeartbeatResponse c s region cid ty msg) = None \<and>
   push_error_or_return c s region msg =
     (Next, snd (sendErrorRegionHeartbeatResponse c s region (clusterID s) ErrorType_UNKNOWN msg)) \<and>
   fst (RegionHeartbeat_message c s request) = Next \<and>
   fst (RegionHeartbeat_body c False s None (Recv_Msg request)) = Next \<and>
   fst (RegionHeartbeat_body c True s None (Recv_Msg request)) =
     (case fst (RegionHeartbeat_first c s request) of
        Some err \<Rightarrow> Ret (Some err)
      | None \<Rightarrow> Next)"
proof -
  have a: "fst (RegionHeartbeat_body c False s None (Recv_Msg request)) = Next"
    using message_fst [of c s request]
    by (simp add: RegionHeartbeat_body_def case_prod_beta)
  have b: "fst (RegionHeartbeat_body c True s None (Recv_Msg request)) =
     (case fst (RegionHeartbeat_first c s request) of
        Some err \<Rightarrow> Ret (Some err)
      | None \<Rightarrow> Next)"
  proof (cases "RegionHeartbeat_first c s request")
    case (Pair e s1)
    then show ?thesis
      using message_fst [of c s1 request]
      by (cases e) (simp_all add: RegionHeartbeat_body_def case_prod_beta)
  qed
  show ?thesis
    by (simp only: sendError_fst push_error_eq message_fst a b simp_thms)
qed

subsection \<open>The guard runs first\<close>

lemma guard_first_Cons [simp]: "guard_first (Ev_validateRequest # evs)"
  by (simp add: guard_first_def)

lemmas unary_defs = validateRequest_def checkStore2_def notBootstrappedHeader_def
  errorHeader_def header_def Let_def

lemma guard_first_GetStore: "guard_first (new_calls s (snd (GetStore c s r)))"
  by (simp add: GetStore_def unary_defs call_defs new_calls_def split: prod.splits option.splits)

lemma guard_first_PutStore: "guard_first (new_calls s (snd (PutStore c s r)))"
  by (simp add: PutStore_def unary_defs call_defs new_calls_def split: prod.splits option.splits)

lemma guard_first_StoreHeartbeat: "guard_first (new_calls s (snd (StoreHeartbeat c s r)))"
  by (simp add: StoreHeartbeat_def unary_defs call_defs new_calls_def split: prod.splits option.splits)

lemma guard_first_AskSplit: "guard_first (new_calls s (snd (AskSplit c s r)))"
  by (simp add: AskSplit_def unary_defs call_defs new_calls_def split: prod.splits option.splits sum.splits)

lemma guard_first_Bootstrap: "guard_first (new_calls s (snd (Bootstrap c s r)))"
  by (simp add: Bootstrap_def unary_defs call_defs new_calls_def split: prod.splits option.splits)

lemma guard_first_IsBootstrapped: "guard_first (new_calls s (snd (IsBootstrapped c s r)))"
  by (simp add: IsBootstrapped_def unary_defs call_defs new_calls_def split: prod.splits option.splits)

lemma guard_first_AllocID: "guard_first (new_calls s (snd (AllocID c s r)))"
  by (simp add: AllocID_def unary_defs call_defs new_calls_def split: prod.splits option.splits)

lemma guard_first_GetRegion: "guard_first (new_calls s (snd (GetRegion c s r)))"
  by (simp add: GetRegion_def unary_defs call_defs new_calls_def split: prod.splits option.splits)

lemma guard_first_GetRegionByID: "guard_first (new_calls s (snd (GetRegionByID c s r)))"
  by (simp add: GetRegionByID_def unary_defs call_defs new_calls_def split: prod.splits option.splits)

lemma guard_first_ReportSplit: "guard_first (new_calls s (snd (ReportSplit c s r)))"
  by (simp add: ReportSplit_def unary_defs call_defs new_calls_def split: prod.splits option.splits)

lemma guard_first_GetClusterConfig: "guard_first (new_calls s (snd (GetClusterConfig c s r)))"
  by (simp add: GetClusterConfig_def unary_defs call_defs new_calls_def split: prod.splits option.splits)

lemma guard_first_PutClusterConfig: "guard_first (new_calls s (snd (PutClusterConfig c s r)))"
  by (simp add: PutClusterConfig_def unary_defs call_defs new_calls_def split: prod.splits option.splits)


lemma Tso_body_calls:
  "\<exists>evs. calls (snd (Tso_body c s r e)) = calls s @ evs \<and> (evs = [] \<or> guard_first evs)"
  by (cases r)
     (simp_all add: Tso_body_def unary_defs call_defs split: prod.splits option.splits)

lemma Tso_calls:
  "\<exists>evs. calls (snd (Tso c s xs)) = calls s @ evs \<and> (evs = [] \<or> guard_first evs)"
proof (induction xs arbitrary: s)
  case Nil
  show ?case by simp
next
  case (Cons x xs)
  obtain ctl s' where body: "Tso_body c s (fst x) (snd x) = (ctl, s')"
    by (cases "Tso_body c s (fst x) (snd x)")
  obtain a where a: "calls s' = calls s @ a" "a = [] \<or> guard_first a"
    using Tso_body_calls [of c s "fst x" "snd x"] body by auto
  show ?case
  proof (cases ctl)
    case Next
    obtain b where b: "calls (snd (Tso c s' xs)) = calls s' @ b" "b = [] \<or> guard_first b"
      using Cons.IH [of s'] by blast
    have "a @ b = [] \<or> guard_first (a @ b)"
      using a(2) b(2) by (cases a) (auto simp: guard_first_def)
    then show ?thesis
      using body Next a(1) b(1) by (intro exI [of _ "a @ b"]) simp
  next
    case (Ret r)
    then show ?thesis using body a by auto
  qed
qed

lemma message_calls:
  "\<exists>evs. calls (snd (RegionHeartbeat_message c s request)) = calls s @ evs"
  by (simp add: RegionHeartbeat_message_def push_error_eq sendErrorRegionHeartbeatResponse_def
        call_defs Let_def case_prod_beta split: option.splits)

lemma first_calls:
  "\<exists>evs. calls (snd (RegionHeartbeat_first c s request)) = calls s @ Ev_validateRequest # evs"
  by (simp add: RegionHeartbeat_first_def unary_defs call_defs split: prod.splits option.splits)

lemma body_calls:
  "\<exists>evs. calls (snd (snd (RegionHeartbeat_body c b s p r))) = calls s @ evs"
proof (cases p)
  case (Some e)
  then show ?thesis by (simp add: RegionHeartbeat_body_def)
next
  case None
  show ?thesis
  proof (cases r)
    case (Recv_Msg request)
    obtain e1 s1 where f: "RegionHeartbeat_first c s request = (e1, s1)"
      by (cases "RegionHeartbeat_first c s request")
    obtain a where a: "calls s1 = calls s @ a"
      using first_calls [of c s request] f by auto
    obtain m where m: "calls (snd (RegionHeartbeat_message c s1 request)) = calls s1 @ m"
      using message_calls by blast
    obtain m' where m': "calls (snd (RegionHeartbeat_message c s request)) = calls s @ m'"
      using message_calls by blast
    show ?thesis
      using None Recv_Msg f a m m'
      by (cases b; cases e1) (simp_all add: RegionHeartbeat_body_def case_prod_beta)
  qed (simp_all add: None RegionHeartbeat_body_def)
qed

lemma loop_calls:
  "\<exists>evs. calls (snd (RegionHeartbeat_loop c b s xs)) = calls s @ evs"
proof (induction xs arbitrary: b s)
  case Nil
  show ?case by simp
next
  case (Cons x xs)
  obtain ctl b' s' where body: "RegionHeartbeat_body c b s (fst x) (snd x) = (ctl, b', s')"
    by (cases "RegionHeartbeat_body c b s (fst x) (snd x)") auto
  obtain a where a: "calls s' = calls s @ a"
    using body_calls [of c b s "fst x" "snd x"] body by auto
  show ?case
  proof (cases ctl)
    case Next
    obtain d where "calls (snd (RegionHeartbeat_loop c b' s' xs)) = calls s' @ d"
      using Cons.IH by blast
    then show ?thesis using body Next a by simp
  next
    case (Ret r)
    then show ?thesis using body a by simp
  qed
qed

lemma body_new_stream_calls:
  "\<exists>evs. calls (snd (snd (RegionHeartbeat_body c True s p r))) = calls s @ evs \<and>
         (evs = [] \<and> fst (RegionHeartbeat_body c True s p r) \<noteq> Next \<or> guard_first evs)"
proof (cases p)
  case (Some e)
  then show ?thesis by (simp add: RegionHeartbeat_body_def)
next
  case None
  show ?thesis
  proof (cases r)
    case (Recv_Msg request)
    obtain e1 s1 where f: "RegionHeartbeat_first c s request = (e1, s1)"
      by (cases "RegionHeartbeat_first c s request")
    obtain a where a: "calls s1 = calls s @ Ev_validateRequest # a"
      using first_calls [of c s request] f by auto
    obtain m where m: "calls (snd (RegionHeartbeat_message c s1 request)) = calls s1 @ m"
      using message_calls by blast
    show ?thesis
      using None Recv_Msg f a m
      by (cases e1) (simp_all add: RegionHeartbeat_body_def case_prod_beta)
  qed (simp_all add: None RegionHeartbeat_body_def)
qed

lemma RegionHeartbeat_calls:
  "\<exists>evs. calls (snd (RegionHeartbeat c s xs)) = calls s @ evs \<and> (evs = [] \<or> guard_first evs)"
proof (cases xs)
  case Nil
  then show ?thesis by (simp add: RegionHeartbeat_def)
next
  case (Cons x xs')
  obtain ctl b' s' where body: "RegionHeartbeat_body c True s (fst x) (snd x) = (ctl, b', s')"
    by (cases "RegionHeartbeat_body c True s (fst x) (snd x)") auto
  obtain a where a: "calls s' = calls s @ a" "a = [] \<and> ctl \<noteq> Next \<or> guard_first a"
    using body_new_stream_calls [of c s "fst x" "snd x"] body by auto
  show ?thesis
  proof (cases ctl)
    case Next
    obtain d where d: "calls (snd (RegionHeartbeat_loop c b' s' xs')) = calls s' @ d"
      using loop_calls by blast
    have "guard_first (a @ d)"
      using a(2) Next by (cases a) (auto simp: guard_first_def)
    then show ?thesis
      using Cons body Next a(1) d by (intro exI [of _ "a @ d"]) (simp add: RegionHeartbeat_def)
  next
    case (Ret r)
    then show ?thesis using Cons body a by (auto simp: RegionHeartbeat_def)
  qed
qed

lemma new_calls_eq: "calls s' = calls s @ evs \<Longrightarrow> new_calls s s' = evs"
  by (simp add: new_calls_def)

lemma GetMembers_new_calls:
  "Ev_validateRequest \<notin> set (new_calls s (snd (GetMembers c s)))"
  by (simp add: GetMembers_def unary_defs call_defs new_calls_def split: prod.splits option.splits)

text \<open>
  C3 (as amended). Every entry point other than \<open>GetMembers\<close> invokes the guard before
  any other call: the first call logged by each of the twelve unary handlers
  Bootstrap, IsBootstrapped, AllocID, GetStore, PutStore, StoreHeartbeat, GetRegion,
  GetRegionByID, AskSplit, ReportSplit, GetClusterConfig and PutClusterConfig is
  \<open>validateRequest\<close>, and a Tso or RegionHeartbeat stream that makes any call at all makes
  \<open>validateRequest\<close> first. \<open>GetMembers\<close> never invokes the guard.
\<close>

theorem guard_before_state_access:
  "guard_first (new_calls s (snd (Bootstrap c s r1))) \<and>
   guard_first (new_calls s (snd (IsBootstrapped c s r2))) \<and>
   guard_first (new_calls s (snd (AllocID c s r3))) \<and>
   guard_first (new_calls s (snd (GetStore c s r4))) \<and>
   guard_first (new_calls s (snd (PutStore c s r5))) \<and>
   guard_first (new_calls s (snd (StoreHeartbeat c s r6))) \<and>
   guard_first (new_calls s (snd (GetRegion c s r7))) \<and>
   guard_first (new_calls s (snd (GetRegionByID c s r8))) \<and>
   guard_first (new_calls s (snd (AskSplit c s r9))) \<and>
   guard_first (new_calls s (snd (ReportSplit c s r10))) \<and>
   guard_first (new_calls s (snd (GetClusterConfig c s r11))) \<and>
   guard_first (new_calls s (snd (PutClusterConfig c s r12))) \<and>
   (new_calls s (snd (Tso c s xs)) = [] \<or> guard_first (new_calls s (snd (Tso c s xs)))) \<and>
   (new_calls s (snd (RegionHeartbeat c s ys)) = [] \<or>
      guard_first (new_calls s (snd (RegionHeartbeat c s ys)))) \<and>
   Ev_validateRequest \<notin> set (new_calls s (snd (GetMembers c s)))"
proof -
  have t: "new_calls s (snd (Tso c s xs)) = [] \<or> guard_first (new_calls s (snd (Tso c s xs)))"
    using Tso_calls [of c s xs] by (auto simp: new_calls_eq)
  have r: "new_calls s (snd (RegionHeartbeat c s ys)) = [] \<or>
      guard_first (new_calls s (snd (RegionHeartbeat c s ys)))"
    using RegionHeartbeat_calls [of c s ys] by (auto simp: new_calls_eq)
  show ?thesis
    by (simp only: guard_first_Bootstrap guard_first_IsBootstrapped guard_first_AllocID
          guard_first_GetStore guard_first_PutStore guard_first_StoreHeartbeat
          guard_first_GetRegion guard_first_GetRegionByID guard_first_AskSplit
          guard_first_ReportSplit guard_first_GetClusterConfig guard_first_PutClusterConfig
          t r GetMembers_new_calls not_False_eq_True simp_thms)
qed

text \<open>The claim as stated fails for \<open>GetMembers\<close>: on a server that is not the leader
  it reads the closed flag, the member list and the leader and answers successfully,
  and the guard is never called.\<close>

theorem GetMembers_guard_counterexample:
  "GetMembers demo_collab (demo_server False False) =
     (Inr \<lparr>Header = Some \<lparr>ClusterId = 7, Error = None\<rparr>, gm_Members = [], gm_Leader = None\<rparr>,
      (demo_server False False)\<lparr>calls := [Ev_isClosed, Ev_GetMembers, Ev_GetLeader]\<rparr>) \<and>
   \<not> guard_first (new_calls (demo_server False False)
                    (snd (GetMembers demo_collab (demo_server False False))))"
  by (simp add: GetMembers_def header_def call_defs demo_collab_def demo_server_def
        new_calls_def guard_first_def)

subsection \<open>How often a stream runs the guard\<close>

lemma message_no_guard:
  "\<exists>evs. calls (snd (RegionHeartbeat_message c s request)) = calls s @ evs \<and>
         Ev_validateRequest \<notin> set evs"
  by (simp add: RegionHeartbeat_message_def push_error_eq sendErrorRegionHeartbeatResponse_def
        call_defs Let_def case_prod_beta split: option.splits)

lemma first_one_guard:
  "\<exists>evs. calls (snd (RegionHeartbeat_first c s request)) = calls s @ Ev_validateRequest # evs \<and>
         Ev_validateRequest \<notin> set evs"
  by (simp add: RegionHeartbeat_first_def unary_defs call_defs case_prod_beta
           split: option.splits)

lemma body_old_stream:
  "\<exists>evs. calls (snd (snd (RegionHeartbeat_body c False s p r))) = calls s @ evs \<and>
         Ev_validateRequest \<notin> set evs \<and> \<not> fst (snd (RegionHeartbeat_body c False s p r))"
proof (cases p)
  case (Some e)
  then show ?thesis by (simp add: RegionHeartbeat_body_def)
next
  case None
  show ?thesis
  proof (cases r)
    case (Recv_Msg request)
    then show ?thesis
      using None message_no_guard [of c s request]
      by (simp add: RegionHeartbeat_body_def case_prod_beta)
  qed (simp_all add: None RegionHeartbeat_body_def)
qed

lemma loop_old_stream:
  "\<exists>evs. calls (snd (RegionHeartbeat_loop c False s xs)) = calls s @ evs \<and>
         Ev_validateRequest \<notin> set evs"
proof (induction xs arbitrary: s)
  case Nil
  show ?case by simp
next
  case (Cons x xs)
  obtain ctl b' s' where body: "RegionHeartbeat_body c False s (fst x) (snd x) = (ctl, b', s')"
    by (cases "RegionHeartbeat_body c False s (fst x) (snd x)") auto
  obtain a where a: "calls s' = calls s @ a" "Ev_validateRequest \<notin> set a" "\<not> b'"
    using body_old_stream [of c s "fst x" "snd x"] body by auto
  show ?case
  proof (cases ctl)
    case Next
    obtain d where "calls (snd (RegionHeartbeat_loop c False s' xs)) = calls s' @ d"
      "Ev_validateRequest \<notin> set d"
      using Cons.IH by blast
    then show ?thesis using body Next a by simp
  next
    case (Ret r)
    then show ?thesis using body a by simp
  qed
qed

lemma first_message_guard:
  "\<exists>evs. calls (snd (RegionHeartbeat c s ((None, Recv_Msg request) # rest))) =
           calls s @ Ev_validateRequest # evs \<and> Ev_validateRequest \<notin> set evs"
proof -
  obtain e1 s1 where f: "RegionHeartbeat_first c s request = (e1, s1)"
    by (cases "RegionHeartbeat_first c s request")
  obtain a where a: "calls s1 = calls s @ Ev_validateRequest # a" "Ev_validateRequest \<notin> set a"
    using first_one_guard [of c s request] f by auto
  show ?thesis
  proof (cases e1)
    case (Some err)
    then show ?thesis using f a
      by (simp add: RegionHeartbeat_def RegionHeartbeat_body_def)
  next
    case None
    obtain ctl s2 where m: "RegionHeartbeat_message c s1 request = (ctl, s2)"
      by (cases "RegionHeartbeat_message c s1 request")
    obtain b where b: "calls s2 = calls s1 @ b" "Ev_validateRequest \<notin> set b"
      using message_no_guard [of c s1 request] m by auto
    obtain d where d: "calls (snd (RegionHeartbeat_loop c False s2 rest)) = calls s2 @ d"
      "Ev_validateRequest \<notin> set d"
      using loop_old_stream by blast
    show ?thesis
      using f None m a b d
      by (cases ctl) (simp_all add: RegionHeartbeat_def RegionHeartbeat_body_def)
  qed
qed

lemma no_first_message:
  "(\<forall>request rest. xs \<noteq> (None, Recv_Msg request) # rest) \<Longrightarrow>
     calls (snd (RegionHeartbeat c s xs)) = calls s"
proof (cases xs)
  case Nil
  then show ?thesis by (simp add: RegionHeartbeat_def)
next
  case (Cons x rest)
  assume h: "\<forall>request rest. xs \<noteq> (None, Recv_Msg request) # rest"
  obtain p r where x: "x = (p, r)" by (cases x)
  show ?thesis
  proof (cases p)
    case (Some e)
    then show ?thesis using Cons x by (simp add: RegionHeartbeat_def RegionHeartbeat_body_def)
  next
    case None
    then show ?thesis using Cons x h
      by (cases r) (simp_all add: RegionHeartbeat_def RegionHeartbeat_body_def)
  qed
qed

lemma guard_at_most_once:
  "count_list (new_calls s (snd (RegionHeartbeat c s xs))) Ev_validateRequest \<le> 1"
proof (cases "\<exists>request rest. xs = (None, Recv_Msg request) # rest")
  case True
  then obtain request rest where xs: "xs = (None, Recv_Msg request) # rest" by blast
  obtain evs where "calls (snd (RegionHeartbeat c s xs)) = calls s @ Ev_validateRequest # evs"
    "Ev_validateRequest \<notin> set evs"
    using first_message_guard [of c s request rest] xs by auto
  then show ?thesis by (simp add: new_calls_def)
next
  case False
  then have "calls (snd (RegionHeartbeat c s xs)) = calls s"
    using no_first_message [of xs c s] by blast
  then show ?thesis by (simp add: new_calls_def)
qed

lemma Tso_body_guard:
  "\<exists>evs. calls (snd (Tso_body c s (Recv_Msg request) e)) = calls s @ Ev_validateRequest # evs \<and>
         Ev_validateRequest \<notin> set evs"
  by (simp add: Tso_body_def unary_defs call_defs case_prod_beta split: option.splits)

lemma Tso_body_Next:
  "fst (Tso_body c s r e) = Next \<Longrightarrow> \<exists>request. r = Recv_Msg request"
  by (cases r) (simp_all add: Tso_body_def)

lemma Tso_guard_count:
  "\<exists>evs. calls (snd (Tso c s xs)) = calls s @ evs \<and>
         (fst (Tso c s xs) = Waiting \<longrightarrow> count_list evs Ev_validateRequest = length xs)"
proof (induction xs arbitrary: s)
  case Nil
  show ?case by simp
next
  case (Cons x xs)
  obtain ctl s' where body: "Tso_body c s (fst x) (snd x) = (ctl, s')"
    by (cases "Tso_body c s (fst x) (snd x)")
  show ?case
  proof (cases ctl)
    case Next
    then obtain request where r: "fst x = Recv_Msg request"
      using Tso_body_Next [of c s "fst x" "snd x"] body by auto
    obtain a where a: "calls s' = calls s @ Ev_validateRequest # a" "Ev_validateRequest \<notin> set a"
      using Tso_body_guard [of c s request "snd x"] body r by auto
    obtain b where b: "calls (snd (Tso c s' xs)) = calls s' @ b"
      "fst (Tso c s' xs) = Waiting \<longrightarrow> count_list b Ev_validateRequest = length xs"
      using Cons.IH [of s'] by blast
    show ?thesis
      using body Next a b
      by (intro exI [of _ "Ev_validateRequest # a @ b"]) (simp add: count_list_0_iff)
  next
    case (Ret r)
    obtain a where "calls s' = calls s @ a"
      using Tso_body_calls [of c s "fst x" "snd x"] body by auto
    then show ?thesis using body Ret by simp
  qed
qed

text \<open>
  C4 (as amended). On a RegionHeartbeat stream the guard is invoked exactly once, on the
  first inbound message: a stream that receives a first message logs \<open>validateRequest\<close>
  as its first call and never again, whatever follows, and no stream logs it more than
  once. On a Tso stream the guard is invoked for every inbound message: each received
  message logs exactly one \<open>validateRequest\<close>, so a stream that has processed all of
  \<open>n\<close> scheduled messages has run the guard \<open>n\<close> times.
\<close>

theorem stream_guard_invocations:
  "(\<exists>evs. new_calls s (snd (RegionHeartbeat c s ((None, Recv_Msg request) # rest))) =
            Ev_validateRequest # evs \<and> Ev_validateRequest \<notin> set evs) \<and>
   count_list (new_calls s (snd (RegionHeartbeat c s ys))) Ev_validateRequest \<le> 1 \<and>
   (\<exists>evs. new_calls s (snd (Tso_body c s (Recv_Msg treq) e)) = Ev_validateRequest # evs \<and>
          Ev_validateRequest \<notin> set evs) \<and>
   (fst (Tso c s xs) = Waiting \<longrightarrow>
      count_list (new_calls s (snd (Tso c s xs))) Ev_validateRequest = length xs)"
proof -
  have a: "\<exists>evs. new_calls s (snd (RegionHeartbeat c s ((None, Recv_Msg request) # rest))) =
            Ev_validateRequest # evs \<and> Ev_validateRequest \<notin> set evs"
    using first_message_guard [of c s request rest] by (auto simp: new_calls_eq)
  have b: "\<exists>evs. new_calls s (snd (Tso_body c s (Recv_Msg treq) e)) = Ev_validateRequest # evs \<and>
          Ev_validateRequest \<notin> set evs"
    using Tso_body_guard [of c s treq e] by (auto simp: new_calls_eq)
  have d: "fst (Tso c s xs) = Waiting \<longrightarrow>
      count_list (new_calls s (snd (Tso c s xs))) Ev_validateRequest = length xs"
    using Tso_guard_count [of c s xs] by (auto simp: new_calls_eq)
  show ?thesis
    using a b d guard_at_most_once [of s c ys] by blast
qed

theorem stream_guard_invocations_witness:
  "fst (Tso demo_collab (demo_server True True) [(Recv_Msg tso_req, None)]) = Waiting \<and>
   count_list (new_calls (demo_server True True)
       (snd (Tso demo_collab (demo_server True True) [(Recv_Msg tso_req, None)])))
     Ev_validateRequest = 1"
proof -
  have w: "fst (Tso demo_collab (demo_server True True) [(Recv_Msg tso_req, None)]) = Waiting"
    by (simp add: Tso_body_def tso_req_def unary_defs call_defs demo_defs)
  show ?thesis
    using w stream_guard_invocations [where s = "demo_server True True" and c = demo_collab
        and xs = "[(Recv_Msg tso_req, None)]"]
    by simp
qed

text \<open>The claim as stated fails for Tso: a stream of two messages runs the guard
  twice, once before each timestamp allocation.\<close>

theorem Tso_guard_counterexample:
  "Tso demo_collab (demo_server True True) [(Recv_Msg tso_req, None), (Recv_Msg tso_req, None)] =
     (Waiting,
      \<lparr>clusterID = 7, regionHeartbeatUnaryMode = False,
       world = \<lparr>dw_leader = True, dw_running = True,
                dw_stores = [(1, \<lparr>store_Id = 1, store_Address = ''tikv1'',
                                 store_State = StoreState_Tombstone\<rparr>)],
                dw_next = 102\<rparr>,
       calls = [Ev_validateRequest, Ev_getRespTS 1,
                Ev_Send_Tso \<lparr>Header = Some \<lparr>ClusterId = 7, Error = None\<rparr>,
                            tso_Timestamp = Some \<lparr>ts_Physical = 100, ts_Logical = 0\<rparr>,
                            tso_RespCount = 1\<rparr>,
                Ev_validateRequest, Ev_getRespTS 1,
                Ev_Send_Tso \<lparr>Header = Some \<lparr>ClusterId = 7, Error = None\<rparr>,
                            tso_Timestamp = Some \<lparr>ts_Physical = 101, ts_Logical = 0\<rparr>,
                            tso_RespCount = 1\<rparr>]\<rparr>) \<and>
   count_list (calls (snd (Tso demo_collab (demo_server True True)
                  [(Recv_Msg tso_req, None), (Recv_Msg tso_req, None)]))) Ev_validateRequest = 2"
  by (simp add: Tso_body_def tso_req_def unary_defs call_defs demo_defs)

subsection \<open>Operations on an unbootstrapped cluster\<close>















subsection \<open>The store lifecycle gate\<close>

lemma checkStore2_tombstoned:
  "tombstoned c s storeID \<Longrightarrow>
     checkStore2 c s storeID =
       (Some \<lparr>err_Type = ErrorType_STORE_TOMBSTONE, err_Message = Lit ''store is tombstone''\<rparr>,
        log_call (Ev_GetStore storeID) s)"
  by (auto simp: tombstoned_def checkStore2_def cluster_GetStore_def read_call_def
        Store_GetState_def split: prod.splits option.splits)

lemma checkStore2_unsuccessful:
  "lookup_unsuccessful c s storeID \<Longrightarrow>
     checkStore2 c s storeID = (None, log_call (Ev_GetStore storeID) s)"
  by (auto simp: lookup_unsuccessful_def checkStore2_def cluster_GetStore_def read_call_def
        split: prod.splits)

lemma checkStore2_iff: "fst (checkStore2 c s storeID) \<noteq> None \<longleftrightarrow> tombstoned c s storeID"
  by (auto simp: tombstoned_def checkStore2_def cluster_GetStore_def read_call_def
        Store_GetState_def split: prod.splits option.splits)

lemma tombstoned_log [simp]:
  "tombstoned c (s\<lparr>calls := evs\<rparr>) storeID = tombstoned c s storeID"
  by (simp add: tombstoned_def)

lemma lookup_unsuccessful_log [simp]:
  "lookup_unsuccessful c (s\<lparr>calls := evs\<rparr>) storeID = lookup_unsuccessful c s storeID"
  by (simp add: lookup_unsuccessful_def)

lemma PutStore_tombstoned:
  assumes "tombstoned c s (Store_GetId (ps_Store r))"
  shows "filter is_store_write (new_calls s (snd (PutStore c s r))) = []"
    and "world (snd (PutStore c s r)) = world s"
    and "admitted c s (GetHeader r) \<Longrightarrow> c_GetRaftCluster c (world s) \<Longrightarrow>
           reply_error_type (fst (PutStore c s r)) = Some ErrorType_STORE_TOMBSTONE \<and>
           new_calls s (snd (PutStore c s r)) =
             [Ev_validateRequest, Ev_GetRaftCluster, Ev_GetStore (Store_GetId (ps_Store r))]"
  using assms
  by (simp_all add: PutStore_def validateRequest_def GetRaftCluster_def read_call_def
        checkStore2_tombstoned Let_def admitted_def reply_error_type_def errorHeader_def
        notBootstrappedHeader_def new_calls_def log_call_def)

lemma StoreHeartbeat_tombstoned:
  assumes "tombstoned c s (StoreStats_GetStoreId (sh_Stats r))"
  shows "filter is_store_write (new_calls s (snd (StoreHeartbeat c s r))) = []"
    and "world (snd (StoreHeartbeat c s r)) = world s"
    and "admitted c s (GetHeader r) \<Longrightarrow> sh_Stats r \<noteq> None \<Longrightarrow> c_GetRaftCluster c (world s) \<Longrightarrow>
           reply_error_type (fst (StoreHeartbeat c s r)) = Some ErrorType_STORE_TOMBSTONE \<and>
           new_calls s (snd (StoreHeartbeat c s r)) =
             [Ev_validateRequest, Ev_GetRaftCluster,
              Ev_GetStore (StoreStats_GetStoreId (sh_Stats r))]"
  using assms
  by (simp_all add: StoreHeartbeat_def validateRequest_def GetRaftCluster_def read_call_def
        checkStore2_tombstoned Let_def admitted_def reply_error_type_def errorHeader_def
        notBootstrappedHeader_def new_calls_def log_call_def)

lemma PutStore_proceeds:
  assumes "lookup_unsuccessful c s (Store_GetId (ps_Store r))"
    and "admitted c s (GetHeader r)" and "c_GetRaftCluster c (world s)"
  shows "new_calls s (snd (PutStore c s r)) =
           [Ev_validateRequest, Ev_GetRaftCluster, Ev_GetStore (Store_GetId (ps_Store r)),
            Ev_putStore (ps_Store r)]"
  using assms
  by (simp add: PutStore_def validateRequest_def GetRaftCluster_def read_call_def
        checkStore2_unsuccessful Let_def admitted_def cluster_putStore_def write_call_def
        new_calls_def log_call_def case_prod_beta split: option.splits)

lemma StoreHeartbeat_proceeds:
  assumes "lookup_unsuccessful c s (StoreStats_GetStoreId (sh_Stats r))"
    and "admitted c s (GetHeader r)" and "sh_Stats r \<noteq> None" and "c_GetRaftCluster c (world s)"
  shows "new_calls s (snd (StoreHeartbeat c s r)) =
           [Ev_validateRequest, Ev_GetRaftCluster,
            Ev_GetStore (StoreStats_GetStoreId (sh_Stats r)),
            Ev_handleStoreHeartbeat (sh_Stats r)]"
  using assms
  by (simp add: StoreHeartbeat_def validateRequest_def GetRaftCluster_def read_call_def
        checkStore2_unsuccessful Let_def admitted_def handleStoreHeartbeat_def write_call_def
        new_calls_def log_call_def case_prod_beta split: option.splits)

text \<open>
  C6 (as amended). For a PutStore or StoreHeartbeat request that targets a store whose
  recorded state is Tombstone, the write (\<open>putStore\<close>, \<open>handleStoreHeartbeat\<close>) is never
  attempted and the collaborator state is unchanged; when the request passes the guard
  on a bootstrapped cluster (and, for StoreHeartbeat, carries stats) the response is a
  structurally successful one with error type \<open>STORE_TOMBSTONE\<close>. If the store lookup
  fails or finds no store, the gate reports nothing and such an admitted request
  proceeds to the write.
\<close>

theorem tombstone_gate:
  "(tombstoned c s (Store_GetId (ps_Store r1)) \<longrightarrow>
      filter is_store_write (new_calls s (snd (PutStore c s r1))) = [] \<and>
      world (snd (PutStore c s r1)) = world s \<and>
      (admitted c s (GetHeader r1) \<and> c_GetRaftCluster c (world s) \<longrightarrow>
         reply_error_type (fst (PutStore c s r1)) = Some ErrorType_STORE_TOMBSTONE)) \<and>
   (tombstoned c s (StoreStats_GetStoreId (sh_Stats r2)) \<longrightarrow>
      filter is_store_write (new_calls s (snd (StoreHeartbeat c s r2))) = [] \<and>
      world (snd (StoreHeartbeat c s r2)) = world s \<and>
      (admitted c s (GetHeader r2) \<and> sh_Stats r2 \<noteq> None \<and> c_GetRaftCluster c (world s) \<longrightarrow>
         reply_error_type (fst (StoreHeartbeat c s r2)) = Some ErrorType_STORE_TOMBSTONE)) \<and>
   (lookup_unsuccessful c s storeID \<longrightarrow> fst (checkStore2 c s storeID) = None) \<and>
   (lookup_unsuccessful c s (Store_GetId (ps_Store r3)) \<and> admitted c s (GetHeader r3) \<and>
      c_GetRaftCluster c (world s) \<longrightarrow>
      new_calls s (snd (PutStore c s r3)) =
        [Ev_validateRequest, Ev_GetRaftCluster, Ev_GetStore (Store_GetId (ps_Store r3)),
         Ev_putStore (ps_Store r3)]) \<and>
   (lookup_unsuccessful c s (StoreStats_GetStoreId (sh_Stats r4)) \<and>
      admitted c s (GetHeader r4) \<and> sh_Stats r4 \<noteq> None \<and> c_GetRaftCluster c (world s) \<longrightarrow>
      new_calls s (snd (StoreHeartbeat c s r4)) =
        [Ev_validateRequest, Ev_GetRaftCluster,
         Ev_GetStore (StoreStats_GetStoreId (sh_Stats r4)),
         Ev_handleStoreHeartbeat (sh_Stats r4)])"
  using PutStore_tombstoned [of c s r1] StoreHeartbeat_tombstoned [of c s r2]
    checkStore2_unsuccessful [of c s storeID] PutStore_proceeds [of c s r3]
    StoreHeartbeat_proceeds [of c s r4]
  by simp

theorem tombstone_gate_witness:
  "tombstoned demo_collab (demo_server True True) 1 \<and>
   lookup_unsuccessful demo_collab (demo_server True True) 2 \<and>
   admitted demo_collab (demo_server True True) hdr7 \<and>
   c_GetRaftCluster demo_collab (world (demo_server True True)) \<and>
   reply_error_type (fst (PutStore demo_collab (demo_server True True) put_store1)) =
     Some ErrorType_STORE_TOMBSTONE \<and>
   reply_error_type (fst (StoreHeartbeat demo_collab (demo_server True True) heartbeat_store1)) =
     Some ErrorType_STORE_TOMBSTONE \<and>
   filter is_store_write
     (new_calls (demo_server True True)
        (snd (PutStore demo_collab (demo_server True True) put_store1))) = [] \<and>
   new_calls (demo_server True True)
       (snd (PutStore demo_collab (demo_server True True) put_store2)) =
     [Ev_validateRequest, Ev_GetRaftCluster, Ev_GetStore 2, Ev_putStore (ps_Store put_store2)] \<and>
   new_calls (demo_server True True)
       (snd (StoreHeartbeat demo_collab (demo_server True True) heartbeat_store2)) =
     [Ev_validateRequest, Ev_GetRaftCluster, Ev_GetStore 2,
      Ev_handleStoreHeartbeat (sh_Stats heartbeat_store2)]"
proof -
  have t: "tombstoned demo_collab (demo_server True True) 1"
    by (simp add: tombstoned_def demo_defs)
  have l: "lookup_unsuccessful demo_collab (demo_server True True) 2"
    by (simp add: lookup_unsuccessful_def demo_defs)
  have a: "admitted demo_collab (demo_server True True) hdr7"
    by (simp add: admitted_def demo_defs)
  have r: "c_GetRaftCluster demo_collab (world (demo_server True True))"
    by (simp add: demo_defs)
  show ?thesis
    using t l a r
      tombstone_gate [where c = demo_collab and s = "demo_server True True"
        and ?r1.0 = put_store1 and ?r2.0 = heartbeat_store1 and ?r3.0 = put_store2
        and ?r4.0 = heartbeat_store2 and storeID = 2]
    by (simp add: put_store1_def put_store2_def heartbeat_store1_def heartbeat_store2_def
          Store_GetId_def StoreStats_GetStoreId_def GetHeader_def)
qed

text \<open>The claim as stated fails when the guard rejects the request: the leader of a
  bootstrapped cluster answers a PutStore for the tombstoned store 1 that carries
  another cluster id with the transport failure, not with a \<open>STORE_TOMBSTONE\<close>
  envelope.\<close>

theorem tombstone_gate_counterexample:
  "tombstoned demo_collab (demo_server True True) (Store_GetId (ps_Store put_store1)) \<and>
   PutStore demo_collab (demo_server True True)
       (put_store1\<lparr>req_Header := Some \<lparr>rh_ClusterId = 8\<rparr>\<rparr>) =
     (Inl (Trace (grpc_Errorf codes_FailedPrecondition
                    ''mismatch cluster id, need %d but got %d'' [ArgUint 7, ArgUint 8])),
      (demo_server True True)\<lparr>calls := [Ev_validateRequest]\<rparr>) \<and>
   reply_error_type (fst (PutStore demo_collab (demo_server True True)
       (put_store1\<lparr>req_Header := Some \<lparr>rh_ClusterId = 8\<rparr>\<rparr>))) \<noteq>
     Some ErrorType_STORE_TOMBSTONE"
  by (simp add: tombstoned_def PutStore_def put_store1_def Store_GetId_def reply_error_type_def
        unary_defs call_defs demo_defs)

subsection \<open>Bootstrap\<close>

lemma Bootstrap_first:
  assumes "admitted c s (GetHeader r)" and "\<not> c_GetRaftCluster c (world s)"
    and "c_bootstrapCluster c (world s) r = (None, w')"
  shows "Bootstrap c s r =
           (Inr \<lparr>Header = Some \<lparr>ClusterId = clusterID s, Error = None\<rparr>\<rparr>,
            s\<lparr>world := w',
              calls := calls s @ [Ev_validateRequest, Ev_GetRaftCluster, Ev_bootstrapCluster]\<rparr>)"
  using assms
  by (simp add: Bootstrap_def admitted_def unary_defs call_defs)

lemma Bootstrap_again:
  assumes "admitted c s (GetHeader r)" and "c_GetRaftCluster c (world s)"
  shows "Bootstrap c s r =
           (Inr \<lparr>Header = Some \<lparr>ClusterId = clusterID s,
                    Error = Some \<lparr>err_Type = ErrorType_ALREADY_BOOTSTRAPPED,
                                  err_Message = Lit ''cluster is already bootstrapped''\<rparr>\<rparr>\<rparr>,
            s\<lparr>calls := calls s @ [Ev_validateRequest, Ev_GetRaftCluster]\<rparr>)"
  using assms
  by (simp add: Bootstrap_def admitted_def unary_defs call_defs)

text \<open>
  C5 (as amended). On a server whose cluster is unbootstrapped, let Bootstrap be called
  twice with requests that pass the guard, and let the cluster initialization of the
  first call succeed and leave the cluster running (with the server still the leader).
  Then the first call returns a success envelope without error and performs the
  initialization; the second call returns a structurally successful response with error
  type \<open>ALREADY_BOOTSTRAPPED\<close>, makes no call beyond the guard and the cluster lookup, and
  leaves the collaborator state unchanged. Over both calls the initialization is
  performed exactly once.
\<close>

theorem Bootstrap_twice:
  assumes "admitted c s (GetHeader r1)"
    and "\<not> c_GetRaftCluster c (world s)"
    and "c_bootstrapCluster c (world s) r1 = (None, w')"
    and "c_GetRaftCluster c w'"
    and "c_IsLeader c w'"
    and "GetClusterId (GetHeader r2) = clusterID s"
  shows "fst (Bootstrap c s r1) = Inr \<lparr>Header = Some \<lparr>ClusterId = clusterID s, Error = None\<rparr>\<rparr> \<and>
         world (snd (Bootstrap c s r1)) = w' \<and>
         new_calls s (snd (Bootstrap c s r1)) =
           [Ev_validateRequest, Ev_GetRaftCluster, Ev_bootstrapCluster] \<and>
         fst (Bootstrap c (snd (Bootstrap c s r1)) r2) =
           Inr \<lparr>Header = Some \<lparr>ClusterId = clusterID s,
                   Error = Some \<lparr>err_Type = ErrorType_ALREADY_BOOTSTRAPPED,
                                 err_Message = Lit ''cluster is already bootstrapped''\<rparr>\<rparr>\<rparr> \<and>
         world (snd (Bootstrap c (snd (Bootstrap c s r1)) r2)) = world (snd (Bootstrap c s r1)) \<and>
         new_calls (snd (Bootstrap c s r1)) (snd (Bootstrap c (snd (Bootstrap c s r1)) r2)) =
           [Ev_validateRequest, Ev_GetRaftCluster] \<and>
         count_list (new_calls s (snd (Bootstrap c (snd (Bootstrap c s r1)) r2)))
           Ev_bootstrapCluster = 1"
proof -
  let ?s1 = "s\<lparr>world := w',
              calls := calls s @ [Ev_validateRequest, Ev_GetRaftCluster, Ev_bootstrapCluster]\<rparr>"
  have first: "Bootstrap c s r1 =
      (Inr \<lparr>Header = Some \<lparr>ClusterId = clusterID s, Error = None\<rparr>\<rparr>, ?s1)"
    using assms(1-3) by (rule Bootstrap_first)
  have adm: "admitted c ?s1 (GetHeader r2)"
    using assms(5,6) by (simp add: admitted_def)
  have run: "c_GetRaftCluster c (world ?s1)"
    using assms(4) by simp
  have second: "Bootstrap c ?s1 r2 =
      (Inr \<lparr>Header = Some \<lparr>ClusterId = clusterID ?s1,
               Error = Some \<lparr>err_Type = ErrorType_ALREADY_BOOTSTRAPPED,
                             err_Message = Lit ''cluster is already bootstrapped''\<rparr>\<rparr>\<rparr>,
       ?s1\<lparr>calls := calls ?s1 @ [Ev_validateRequest, Ev_GetRaftCluster]\<rparr>)"
    using adm run by (rule Bootstrap_again)
  show ?thesis
    by (simp add: first second new_calls_def)
qed

theorem Bootstrap_twice_witness:
  "admitted demo_collab (demo_server True False) (GetHeader bootstrap_req) \<and>
   \<not> c_GetRaftCluster demo_collab (world (demo_server True False)) \<and>
   c_bootstrapCluster demo_collab (world (demo_server True False)) bootstrap_req =
     (None, world (demo_server True True)) \<and>
   fst (Bootstrap demo_collab (demo_server True False) bootstrap_req) =
     Inr \<lparr>Header = Some \<lparr>ClusterId = 7, Error = None\<rparr>\<rparr> \<and>
   fst (Bootstrap demo_collab
          (snd (Bootstrap demo_collab (demo_server True False) bootstrap_req)) bootstrap_req) =
     Inr \<lparr>Header = Some \<lparr>ClusterId = 7,
             Error = Some \<lparr>err_Type = ErrorType_ALREADY_BOOTSTRAPPED,
                           err_Message = Lit ''cluster is already bootstrapped''\<rparr>\<rparr>\<rparr>"
proof -
  have a: "admitted demo_collab (demo_server True False) (GetHeader bootstrap_req)"
    by (simp add: admitted_def bootstrap_req_def demo_defs)
  have u: "\<not> c_GetRaftCluster demo_collab (world (demo_server True False))"
    by (simp add: demo_defs)
  have b: "c_bootstrapCluster demo_collab (world (demo_server True False)) bootstrap_req =
     (None, world (demo_server True True))"
    by (simp add: demo_defs)
  have r: "c_GetRaftCluster demo_collab (world (demo_server True True))"
    by (simp add: demo_defs)
  have l: "c_IsLeader demo_collab (world (demo_server True True))"
    by (simp add: demo_defs)
  have h: "GetClusterId (GetHeader bootstrap_req) = clusterID (demo_server True False)"
    by (simp add: bootstrap_req_def demo_defs)
  show ?thesis
    using a u b Bootstrap_twice [OF a u b r l h]
    by (simp add: demo_server_def)
qed

text \<open>The claim as stated fails when the cluster initialization fails: the first call,
  with a valid header on an unbootstrapped leader, returns a transport failure
  instead of a success envelope.\<close>

theorem Bootstrap_twice_counterexample:
  "admitted failing_bootstrap (demo_server True False) (GetHeader bootstrap_req) \<and>
   \<not> c_GetRaftCluster failing_bootstrap (world (demo_server True False)) \<and>
   Bootstrap failing_bootstrap (demo_server True False) bootstrap_req =
     (Inl (grpc_Errorf codes_Unknown ''etcd unavailable'' []),
      (demo_server True False)
        \<lparr>calls := [Ev_validateRequest, Ev_GetRaftCluster, Ev_bootstrapCluster]\<rparr>)"
  by (simp add: Bootstrap_def admitted_def failing_bootstrap_def bootstrap_req_def Error_text_def
        unary_defs call_defs demo_defs)

subsection \<open>Malformed region heartbeats\<close>

lemma malformed_message:
  assumes "malformed request"
  shows "\<exists>resp e. new_calls s (snd (RegionHeartbeat_message c s request)) =
             [Ev_GetRaftCluster, Ev_sendToWatcher (heartbeat_region request) resp] \<and>
           instruction_error resp = Some e \<and> err_Type e = ErrorType_UNKNOWN"
  using assms
  by (auto simp: malformed_def RegionHeartbeat_message_def push_error_eq
        sendErrorRegionHeartbeatResponse_def heartbeat_region_def instruction_error_def
        RegionInfo_GetId_def newRegionInfo_def new_calls_def call_defs Let_def)

lemma first_no_ingestion:
  "\<exists>evs. calls (snd (RegionHeartbeat_first c s request)) = calls s @ evs \<and>
         filter is_ingestion evs = []"
  by (simp add: RegionHeartbeat_first_def unary_defs call_defs case_prod_beta
           split: option.splits)

lemma malformed_body:
  assumes "malformed request"
  shows "filter is_ingestion
           (new_calls s (snd (snd (RegionHeartbeat_body c b s p (Recv_Msg request))))) = []"
proof (cases p)
  case (Some e)
  then show ?thesis by (simp add: RegionHeartbeat_body_def new_calls_def)
next
  case None
  have later: "filter is_ingestion (drop (length (calls s0))
                 (calls (snd (RegionHeartbeat_message c s0 request)))) = []" for s0
    using malformed_message [OF assms, of s0 c] by (auto simp: new_calls_def)
  obtain e1 s1 where f: "RegionHeartbeat_first c s request = (e1, s1)"
    by (cases "RegionHeartbeat_first c s request")
  obtain a where a: "calls s1 = calls s @ a" "filter is_ingestion a = []"
    using first_no_ingestion [of c s request] f by auto
  obtain m where m: "calls (snd (RegionHeartbeat_message c s1 request)) = calls s1 @ m"
    using message_calls by blast
  have m0: "filter is_ingestion m = []"
    using later [of s1] m by simp
  show ?thesis
  proof (cases b)
    case False
    then show ?thesis
      using None later [of s]
      by (simp add: RegionHeartbeat_body_def case_prod_beta new_calls_def)
  next
    case True
    then show ?thesis
      using None f a m m0
      by (cases e1) (simp_all add: RegionHeartbeat_body_def case_prod_beta new_calls_def)
  qed
qed

lemma loop_step_old:
  "RegionHeartbeat_loop c False s ((None, Recv_Msg request) # rest) =
     RegionHeartbeat_loop c False (snd (RegionHeartbeat_message c s request)) rest"
  using message_fst [of c s request]
  by (cases "RegionHeartbeat_message c s request") (simp add: RegionHeartbeat_body_def)

lemma loop_step_new:
  "fst (RegionHeartbeat_first c s request) = None \<Longrightarrow>
     RegionHeartbeat_loop c True s ((None, Recv_Msg request) # rest) =
       RegionHeartbeat_loop c False
         (snd (RegionHeartbeat_message c (snd (RegionHeartbeat_first c s request)) request)) rest"
  using message_fst [of c "snd (RegionHeartbeat_first c s request)" request]
  by (cases "RegionHeartbeat_first c s request";
      cases "RegionHeartbeat_message c (snd (RegionHeartbeat_first c s request)) request")
     (simp add: RegionHeartbeat_body_def)

text \<open>
  C1 (as amended). A RegionHeartbeat message whose region has id 0 or whose leader is
  absent is never forwarded to heartbeat ingestion, whichever iteration receives it.
  When the message is processed (it is not the first of its stream, or it is the first
  and the first-message block, that is the guard and the allocation of the subscriber
  id, succeeds), exactly one call follows the cluster lookup: \<open>sendToWatcher\<close>, called
  once, with one synthesized error instruction of type \<open>UNKNOWN\<close>; and the receive loop
  goes on with the rest of the stream. The statement ends at this hand-over to the
  watcher: what is written to the stream for the instruction is not part of it.
\<close>

theorem malformed_heartbeat:
  assumes "malformed request"
  shows "filter is_ingestion
           (new_calls s (snd (snd (RegionHeartbeat_body c b s p (Recv_Msg request))))) = [] \<and>
         fst (RegionHeartbeat_message c s request) = Next \<and>
         (\<exists>resp e. new_calls s (snd (RegionHeartbeat_message c s request)) =
             [Ev_GetRaftCluster, Ev_sendToWatcher (heartbeat_region request) resp] \<and>
           instruction_error resp = Some e \<and> err_Type e = ErrorType_UNKNOWN) \<and>
         RegionHeartbeat_loop c False s ((None, Recv_Msg request) # rest) =
           RegionHeartbeat_loop c False (snd (RegionHeartbeat_message c s request)) rest \<and>
         (fst (RegionHeartbeat_first c s request) = None \<longrightarrow>
            RegionHeartbeat_loop c True s ((None, Recv_Msg request) # rest) =
              RegionHeartbeat_loop c False
                (snd (RegionHeartbeat_message c (snd (RegionHeartbeat_first c s request)) request))
                rest)"
  using malformed_body [OF assms, of s c b p] message_fst [of c s request]
    malformed_message [OF assms, of s c] loop_step_old [of c s request rest]
    loop_step_new [of c s request rest]
  by blast

theorem malformed_heartbeat_witness:
  "malformed empty_heartbeat \<and>
   fst (RegionHeartbeat_first demo_collab (demo_server True True) empty_heartbeat) = None \<and>
   fst (RegionHeartbeat_loop demo_collab True (demo_server True True)
          [(None, Recv_Msg empty_heartbeat)]) = Waiting \<and>
   fst (RegionHeartbeat_loop demo_collab False (demo_server True True)
          [(None, Recv_Msg empty_heartbeat)]) = Waiting"
proof -
  have m: "malformed empty_heartbeat"
    by (simp add: malformed_def empty_heartbeat_def)
  have f: "fst (RegionHeartbeat_first demo_collab (demo_server True True) empty_heartbeat) = None"
    by (simp add: RegionHeartbeat_first_def empty_heartbeat_def unary_defs call_defs demo_defs)
  show ?thesis
    using m f
      malformed_heartbeat [OF m, where c = demo_collab and s = "demo_server True True"
        and rest = "[]"]
    by simp
qed

text \<open>The claim as stated fails for the first message of a stream that the guard
  rejects: the stream ends with the transport failure and no error instruction is
  pushed.\<close>

theorem malformed_heartbeat_counterexample:
  "malformed empty_heartbeat \<and>
   RegionHeartbeat demo_collab (demo_server False False) [(None, Recv_Msg empty_heartbeat)] =
     (Returned (Some (Trace (grpc_Errorf codes_Unavailable ''not leader'' []))),
      (demo_server False False)\<lparr>calls := [Ev_validateRequest]\<rparr>)"
  by (simp add: malformed_def empty_heartbeat_def RegionHeartbeat_def RegionHeartbeat_body_def
        RegionHeartbeat_first_def notLeaderError_def unary_defs call_defs demo_defs)

subsection \<open>The pusher\<close>

text \<open>The pusher assigns a fresh header to every instruction before the write (line
  243), so the response it writes carries no error, whatever header the instruction
  had when it was handed to the watcher.\<close>

lemma pusher_replaces_header:
  "pushRegionHeartbeatResponse s (Watcher_Recv req out # post) = (acts, st) \<Longrightarrow>
     \<exists>resp rest. acts = Act_Send resp out # rest \<and> Header resp = Some (header s) \<and>
       instruction_error resp = None"
  by (cases out)
     (auto simp: Let_def instruction_error_def header_def split: prod.splits)

lemma push_delivered_prefix:
  "list_all delivered pre \<Longrightarrow>
     pushRegionHeartbeatResponse s (pre @ evs) =
       (concat (map (push_delivered s) pre) @ fst (pushRegionHeartbeatResponse s evs),
        snd (pushRegionHeartbeatResponse s evs))"
proof (induction pre)
  case Nil
  show ?case by simp
next
  case (Cons ev pre)
  then obtain req where ev: "ev = Watcher_Recv req None"
    by (cases ev rule: delivered.cases) simp_all
  show ?case
    using Cons by (simp add: ev push_one_def Let_def)
qed

text \<open>
  C8. Let the pusher have written every earlier instruction successfully, so that it
  takes the instruction \<open>req\<close> from the watcher, and let \<open>out\<close> be the outcome of the
  write of \<open>req\<close>. Then the actions of the pusher are: for each earlier instruction its
  write and the report of the outcome on its slot; then the write of \<open>req\<close> and the
  report of \<open>out\<close> on the slot of \<open>req\<close>; and then, if the write failed, the signal of the
  failure on the error channel, after which the pusher has returned and nothing
  further is written, whatever the watcher still holds; if the write succeeded, the
  pusher goes on with the rest. A done context ends the pusher without any action.
\<close>

theorem pusher_reports_outcome:
  assumes "list_all delivered pre"
  shows "pushRegionHeartbeatResponse s (pre @ Watcher_Recv req out # post) =
           (concat (map (push_delivered s) pre) @
              [Act_Send ((or_resp req)\<lparr>Header := Some (header s)\<rparr>) out,
               Act_Ack (or_err req) out] @
              (case out of
                 None \<Rightarrow> fst (pushRegionHeartbeatResponse s post)
               | Some e \<Rightarrow> [Act_errChan e]),
            (case out of
               None \<Rightarrow> snd (pushRegionHeartbeatResponse s post)
             | Some e \<Rightarrow> Pusher_Returned)) \<and>
         pushRegionHeartbeatResponse s (pre @ Ctx_Done # post) =
           (concat (map (push_delivered s) pre), Pusher_Returned) \<and>
         pushRegionHeartbeatResponse s pre =
           (concat (map (push_delivered s) pre), Pusher_Waiting)"
proof -
  have a: "pushRegionHeartbeatResponse s (Watcher_Recv req out # post) =
      ([Act_Send ((or_resp req)\<lparr>Header := Some (header s)\<rparr>) out, Act_Ack (or_err req) out] @
         (case out of
            None \<Rightarrow> fst (pushRegionHeartbeatResponse s post)
          | Some e \<Rightarrow> [Act_errChan e]),
       (case out of
          None \<Rightarrow> snd (pushRegionHeartbeatResponse s post)
        | Some e \<Rightarrow> Pusher_Returned))"
    by (cases out) (simp_all add: Let_def case_prod_beta)
  have b: "pushRegionHeartbeatResponse s pre =
      (concat (map (push_delivered s) pre), Pusher_Waiting)"
    using push_delivered_prefix [OF assms, of s "[]"] by simp
  show ?thesis
    using push_delivered_prefix [OF assms, of s "Watcher_Recv req out # post"]
      push_delivered_prefix [OF assms, of s "Ctx_Done # post"] a b
    by simp
qed

theorem pusher_reports_outcome_witness:
  "list_all delivered [Watcher_Recv (instruction 1) None] \<and>
   pushRegionHeartbeatResponse (demo_server True True)
     [Watcher_Recv (instruction 1) None,
      Watcher_Recv (instruction 2) (Some (ExtError ''broken pipe'')),
      Watcher_Recv (instruction 3) None] =
     ([Act_Send \<lparr>Header = Some \<lparr>ClusterId = 7, Error = None\<rparr>, rhb_ChangePeer = None,
                 rhb_TransferLeader = None\<rparr> None,
       Act_Ack 1 None,
       Act_Send \<lparr>Header = Some \<lparr>ClusterId = 7, Error = None\<rparr>, rhb_ChangePeer = None,
                 rhb_TransferLeader = None\<rparr> (Some (ExtError ''broken pipe'')),
       Act_Ack 2 (Some (ExtError ''broken pipe'')),
       Act_errChan (ExtError ''broken pipe'')],
      Pusher_Returned)"
proof -
  have d: "list_all delivered [Watcher_Recv (instruction 1) None]"
    by simp
  show ?thesis
    using d pusher_reports_outcome [OF d, where s = "demo_server True True"
        and req = "instruction 2" and out = "Some (ExtError ''broken pipe'')"
        and post = "[Watcher_Recv (instruction 3) None]"]
    by (simp add: push_one_def instruction_def header_def demo_server_def
          del: pushRegionHeartbeatResponse.simps)
qed

subsection \<open>The cluster id of every response header\<close>

lemmas rc_defs = reply_cluster_ok_def header_of_def unary_defs call_defs

lemma rc_GetMembers: "reply_cluster_ok (clusterID s) (fst (GetMembers c s))"
  by (simp add: GetMembers_def rc_defs case_prod_beta split: option.splits)

lemma rc_Bootstrap: "reply_cluster_ok (clusterID s) (fst (Bootstrap c s r))"
  by (simp add: Bootstrap_def rc_defs case_prod_beta split: option.splits)

lemma rc_IsBootstrapped: "reply_cluster_ok (clusterID s) (fst (IsBootstrapped c s r))"
  by (simp add: IsBootstrapped_def rc_defs case_prod_beta split: option.splits)

lemma rc_AllocID: "reply_cluster_ok (clusterID s) (fst (AllocID c s r))"
  by (simp add: AllocID_def rc_defs case_prod_beta split: option.splits)

lemma rc_GetStore: "reply_cluster_ok (clusterID s) (fst (GetStore c s r))"
  by (simp add: GetStore_def rc_defs case_prod_beta split: option.splits)

lemma rc_PutStore: "reply_cluster_ok (clusterID s) (fst (PutStore c s r))"
  by (simp add: PutStore_def rc_defs case_prod_beta split: option.splits)

lemma rc_StoreHeartbeat: "reply_cluster_ok (clusterID s) (fst (StoreHeartbeat c s r))"
  by (simp add: StoreHeartbeat_def rc_defs case_prod_beta split: option.splits)

lemma rc_GetRegion: "reply_cluster_ok (clusterID s) (fst (GetRegion c s r))"
  by (simp add: GetRegion_def rc_defs case_prod_beta split: option.splits)

lemma rc_GetRegionByID: "reply_cluster_ok (clusterID s) (fst (GetRegionByID c s r))"
  by (simp add: GetRegionByID_def rc_defs case_prod_beta split: option.splits)

lemma rc_AskSplit: "reply_cluster_ok (clusterID s) (fst (AskSplit c s r))"
  by (auto simp: AskSplit_def rc_defs case_prod_beta split: option.splits sum.splits)

lemma rc_ReportSplit: "reply_cluster_ok (clusterID s) (fst (ReportSplit c s r))"
  by (simp add: ReportSplit_def rc_defs case_prod_beta split: option.splits)

lemma rc_GetClusterConfig: "reply_cluster_ok (clusterID s) (fst (GetClusterConfig c s r))"
  by (simp add: GetClusterConfig_def rc_defs case_prod_beta split: option.splits)

lemma rc_PutClusterConfig: "reply_cluster_ok (clusterID s) (fst (PutClusterConfig c s r))"
  by (simp add: PutClusterConfig_def rc_defs case_prod_beta split: option.splits)

lemma rc_Tso_body:
  "\<exists>evs. calls (snd (Tso_body c s r e)) = calls s @ evs \<and>
         list_all (event_cluster_ok (clusterID s)) evs \<and>
         clusterID (snd (Tso_body c s r e)) = clusterID s"
  by (cases r)
     (simp_all add: Tso_body_def header_of_def unary_defs call_defs case_prod_beta
        split: option.splits)

lemma rc_Tso:
  "\<exists>evs. calls (snd (Tso c s xs)) = calls s @ evs \<and>
         list_all (event_cluster_ok (clusterID s)) evs"
proof (induction xs arbitrary: s)
  case Nil
  show ?case by simp
next
  case (Cons x xs)
  obtain ctl s' where body: "Tso_body c s (fst x) (snd x) = (ctl, s')"
    by (cases "Tso_body c s (fst x) (snd x)")
  obtain a where a: "calls s' = calls s @ a" "list_all (event_cluster_ok (clusterID s)) a"
    "clusterID s' = clusterID s"
    using rc_Tso_body [of c s "fst x" "snd x"] body by auto
  show ?case
  proof (cases ctl)
    case Next
    obtain b where "calls (snd (Tso c s' xs)) = calls s' @ b"
      "list_all (event_cluster_ok (clusterID s')) b"
      using Cons.IH [of s'] by blast
    then show ?thesis
      using body Next a by (intro exI [of _ "a @ b"]) simp
  next
    case (Ret r)
    then show ?thesis using body a by auto
  qed
qed

lemma rc_message:
  "\<exists>evs. calls (snd (RegionHeartbeat_message c s request)) = calls s @ evs \<and>
         list_all (event_cluster_ok (clusterID s)) evs \<and>
         clusterID (snd (RegionHeartbeat_message c s request)) = clusterID s"
  by (simp add: RegionHeartbeat_message_def push_error_eq sendErrorRegionHeartbeatResponse_def
        header_of_def call_defs Let_def case_prod_beta split: option.splits)

lemma rc_first:
  "\<exists>evs. calls (snd (RegionHeartbeat_first c s request)) = calls s @ evs \<and>
         list_all (event_cluster_ok (clusterID s)) evs \<and>
         clusterID (snd (RegionHeartbeat_first c s request)) = clusterID s"
  by (simp add: RegionHeartbeat_first_def unary_defs call_defs case_prod_beta
           split: option.splits)

lemma rc_body:
  "\<exists>evs. calls (snd (snd (RegionHeartbeat_body c b s p r))) = calls s @ evs \<and>
         list_all (event_cluster_ok (clusterID s)) evs \<and>
         clusterID (snd (snd (RegionHeartbeat_body c b s p r))) = clusterID s"
proof (cases p)
  case (Some e)
  then show ?thesis by (simp add: RegionHeartbeat_body_def)
next
  case None
  show ?thesis
  proof (cases r)
    case (Recv_Msg request)
    obtain e1 s1 where f: "RegionHeartbeat_first c s request = (e1, s1)"
      by (cases "RegionHeartbeat_first c s request")
    obtain a where a: "calls s1 = calls s @ a" "list_all (event_cluster_ok (clusterID s)) a"
      "clusterID s1 = clusterID s"
      using rc_first [of c s request] f by auto
    obtain m where m: "calls (snd (RegionHeartbeat_message c s1 request)) = calls s1 @ m"
      "list_all (event_cluster_ok (clusterID s1)) m"
      "clusterID (snd (RegionHeartbeat_message c s1 request)) = clusterID s1"
      using rc_message by blast
    obtain m' where m': "calls (snd (RegionHeartbeat_message c s request)) = calls s @ m'"
      "list_all (event_cluster_ok (clusterID s)) m'"
      "clusterID (snd (RegionHeartbeat_message c s request)) = clusterID s"
      using rc_message by blast
    show ?thesis
      using None Recv_Msg f a m m'
      by (cases b; cases e1) (simp_all add: RegionHeartbeat_body_def case_prod_beta)
  qed (simp_all add: None RegionHeartbeat_body_def)
qed

lemma rc_loop:
  "\<exists>evs. calls (snd (RegionHeartbeat_loop c b s xs)) = calls s @ evs \<and>
         list_all (event_cluster_ok (clusterID s)) evs"
proof (induction xs arbitrary: b s)
  case Nil
  show ?case by simp
next
  case (Cons x xs)
  obtain ctl b' s' where body: "RegionHeartbeat_body c b s (fst x) (snd x) = (ctl, b', s')"
    by (cases "RegionHeartbeat_body c b s (fst x) (snd x)") auto
  obtain a where a: "calls s' = calls s @ a" "list_all (event_cluster_ok (clusterID s)) a"
    "clusterID s' = clusterID s"
    using rc_body [of c b s "fst x" "snd x"] body by auto
  show ?case
  proof (cases ctl)
    case Next
    obtain d where "calls (snd (RegionHeartbeat_loop c b' s' xs)) = calls s' @ d"
      "list_all (event_cluster_ok (clusterID s')) d"
      using Cons.IH by blast
    then show ?thesis
      using body Next a by (intro exI [of _ "a @ d"]) simp
  next
    case (Ret r)
    then show ?thesis using body a by auto
  qed
qed

lemma rc_pusher:
  "list_all (action_cluster_ok (clusterID s)) (fst (pushRegionHeartbeatResponse s evs))"
  by (induction s evs rule: pushRegionHeartbeatResponse.induct)
     (simp_all add: header_of_def header_def Let_def case_prod_beta split: option.splits)

lemma rc_sendError:
  "new_calls s (snd (sendErrorRegionHeartbeatResponse c s region (clusterID s) ty msg)) =
     [Ev_sendToWatcher region
        \<lparr>Header = Some \<lparr>ClusterId = clusterID s,
                        Error = Some \<lparr>err_Type = ty, err_Message = msg\<rparr>\<rparr>,
         rhb_ChangePeer = None, rhb_TransferLeader = None\<rparr>]"
  by (simp add: sendErrorRegionHeartbeatResponse_def sendToWatcher_def log_call_def new_calls_def
        Let_def)

text \<open>
  C9. Every response header produced by this layer carries the cluster id of the
  server: the three header builders; the response of every unary handler that returns
  one (success or domain error); every Tso response written to its stream; every
  instruction that the RegionHeartbeat loop hands to the watcher with a header, in
  particular the synthesized error instructions; and every response the pusher writes.
\<close>

theorem response_cluster_id:
  "ClusterId (header s) = clusterID s \<and>
   ClusterId (errorHeader s err) = clusterID s \<and>
   ClusterId (notBootstrappedHeader s) = clusterID s \<and>
   reply_cluster_ok (clusterID s) (fst (GetMembers c s)) \<and>
   reply_cluster_ok (clusterID s) (fst (Bootstrap c s r1)) \<and>
   reply_cluster_ok (clusterID s) (fst (IsBootstrapped c s r2)) \<and>
   reply_cluster_ok (clusterID s) (fst (AllocID c s r3)) \<and>
   reply_cluster_ok (clusterID s) (fst (GetStore c s r4)) \<and>
   reply_cluster_ok (clusterID s) (fst (PutStore c s r5)) \<and>
   reply_cluster_ok (clusterID s) (fst (StoreHeartbeat c s r6)) \<and>
   reply_cluster_ok (clusterID s) (fst (GetRegion c s r7)) \<and>
   reply_cluster_ok (clusterID s) (fst (GetRegionByID c s r8)) \<and>
   reply_cluster_ok (clusterID s) (fst (AskSplit c s r9)) \<and>
   reply_cluster_ok (clusterID s) (fst (ReportSplit c s r10)) \<and>
   reply_cluster_ok (clusterID s) (fst (GetClusterConfig c s r11)) \<and>
   reply_cluster_ok (clusterID s) (fst (PutClusterConfig c s r12)) \<and>
   list_all (event_cluster_ok (clusterID s)) (new_calls s (snd (Tso c s xs))) \<and>
   list_all (event_cluster_ok (clusterID s)) (new_calls s (snd (RegionHeartbeat c s ys))) \<and>
   new_calls s (snd (sendErrorRegionHeartbeatResponse c s region (clusterID s) ty msg)) =
     [Ev_sendToWatcher region
        \<lparr>Header = Some \<lparr>ClusterId = clusterID s,
                        Error = Some \<lparr>err_Type = ty, err_Message = msg\<rparr>\<rparr>,
         rhb_ChangePeer = None, rhb_TransferLeader = None\<rparr>] \<and>
   list_all (action_cluster_ok (clusterID s)) (fst (pushRegionHeartbeatResponse s evs))"
proof -
  have h: "ClusterId (header s) = clusterID s" "ClusterId (errorHeader s err) = clusterID s"
    "ClusterId (notBootstrappedHeader s) = clusterID s"
    by (simp_all add: header_def errorHeader_def notBootstrappedHeader_def)
  have t: "list_all (event_cluster_ok (clusterID s)) (new_calls s (snd (Tso c s xs)))"
    using rc_Tso [of c s xs] by (auto simp: new_calls_eq)
  have r: "list_all (event_cluster_ok (clusterID s)) (new_calls s (snd (RegionHeartbeat c s ys)))"
    using rc_loop [of c True s ys] by (auto simp: new_calls_eq RegionHeartbeat_def)
  show ?thesis
    by (simp only: h t r rc_GetMembers rc_Bootstrap rc_IsBootstrapped rc_AllocID rc_GetStore
          rc_PutStore rc_StoreHeartbeat rc_GetRegion rc_GetRegionByID rc_AskSplit
          rc_ReportSplit rc_GetClusterConfig rc_PutClusterConfig rc_sendError rc_pusher
          simp_thms)
qed

end
